theory Spec2Isabelle
  imports Main
begin

section \<open>Values, nodes, graphs and the object store\<close>

text \<open>
  The protocol layer of \<^verbatim>\<open>nnsight/tracing/protocols.py\<close> works on Python objects that it
  shares by reference: nodes, graphs, modules and the closures of gradient hooks. The
  model keeps each kind of object in a store (a total function from addresses to objects,
  with a counter for the next free address) and passes the store explicitly; a Python
  reference is an address.
\<close>

type_synonym addr = nat   \<comment> \<open>reference to a Node object\<close>
type_synonym gref = nat   \<comment> \<open>reference to a Graph object\<close>
type_synonym mref = nat   \<comment> \<open>reference to a torch.nn.Module object\<close>
type_synonym href = nat   \<comment> \<open>reference to a registered gradient hook\<close>
type_synonym device = string

text \<open>
  The bridge directory: graph identifier to graph instance, and the release flag.
  The protocols only read it.
\<close>

record bridge =
  id_to_graph :: "int \<rightharpoonup> gref"
  release :: bool

text \<open>
  Python values as far as the protocols look into them. \<open>Empty\<close> is
  \<^verbatim>\<open>inspect._empty\<close>, the marker of a value that is not set; a tensor is its device and
  an identifier of its data.
\<close>

datatype pyval =
    Empty
  | PNone
  | PBool bool
  | PInt int
  | PStr string
  | PTensor device nat
  | PNode addr
  | PModule mref
  | PBridge bridge
  | PList "pyval list"
  | PTuple "pyval list"

datatype error =
    KeyError pyval
  | AttributeError string
  | NameError string
  | IndexError
  | ValueError
  | TypeError
  | ModuleError string   \<comment> \<open>whatever a module's forward raises\<close>

type_synonym kwargs = "(string \<times> pyval) list"

record node =
  name :: string
  target :: string
  args :: "pyval list"
  kwargs :: kwargs
  proxy_value :: pyval
  nvalue :: pyval          \<comment> \<open>the field \<^verbatim>\<open>value\<close>\<close>
  graph :: gref
  listeners :: "addr list"

record graph =
  gid :: int               \<comment> \<open>the field \<^verbatim>\<open>id\<close>\<close>
  nodes :: "string \<rightharpoonup> addr"
  attachments :: "string \<rightharpoonup> pyval"
  validate :: bool
  name_idx :: "string \<Rightarrow> nat"

record module =
  forward :: "pyval list \<Rightarrow> kwargs \<Rightarrow> error + pyval"
  parameters :: "device list"   \<comment> \<open>the devices of the module's parameters, in order\<close>
  attrs :: "string \<rightharpoonup> pyval"

text \<open>
  The closure that \<^verbatim>\<open>GradProtocol.execute\<close> registers as a hook: the node it captured,
  the captured counter \<^verbatim>\<open>backward_idx\<close>, the tensor the hook sits on, and whether the
  handle is still registered (\<^verbatim>\<open>hook.remove()\<close> clears it).
\<close>

record grad_closure =
  hook_node :: addr
  backward_idx :: pyval
  hook_tensor :: nat
  registered :: bool

record world =
  node_heap :: "addr \<Rightarrow> node"
  graph_heap :: "gref \<Rightarrow> graph"
  module_heap :: "mref \<Rightarrow> module"
  hook_heap :: "href \<Rightarrow> grad_closure"
  next_addr :: addr
  next_hook :: href

section \<open>The collaborators of the protocol layer\<close>

text \<open>\<^verbatim>\<open>dict.get(key, default)\<close>.\<close>

definition dict_get :: "(string \<rightharpoonup> pyval) \<Rightarrow> string \<Rightarrow> pyval \<Rightarrow> pyval" where
  "dict_get d k dflt = (case d k of None \<Rightarrow> dflt | Some v \<Rightarrow> v)"

text \<open>\<^verbatim>\<open>dict[key]\<close>, which raises KeyError on a missing key.\<close>

definition dict_item :: "(string \<rightharpoonup> pyval) \<Rightarrow> string \<Rightarrow> error + pyval" where
  "dict_item d k = (case d k of None \<Rightarrow> Inl (KeyError (PStr k)) | Some v \<Rightarrow> Inr v)"

text \<open>
  Modelled from the spec: \<^verbatim>\<open>util.apply(data, fn, cls)\<close> is not part of the protocol file.
  It applies \<open>fn\<close> to every instance of \<open>cls\<close> inside \<open>data\<close>, recursing through
  lists and tuples ("recursively unwrapped"), and leaves everything else as it is.
\<close>

fun util_apply :: "pyval \<Rightarrow> (pyval \<Rightarrow> pyval) \<Rightarrow> (pyval \<Rightarrow> bool) \<Rightarrow> pyval" where
  "util_apply (PList xs) fn cls =
     (if cls (PList xs) then fn (PList xs) else PList (map (\<lambda>d. util_apply d fn cls) xs))"
| "util_apply (PTuple xs) fn cls =
     (if cls (PTuple xs) then fn (PTuple xs) else PTuple (map (\<lambda>d. util_apply d fn cls) xs))"
| "util_apply data fn cls = (if cls data then fn data else data)"

text \<open>
  The same traversal with the callback \<^verbatim>\<open>_device\<close> of \<^verbatim>\<open>get_swap\<close>, which overwrites
  the captured variable \<^verbatim>\<open>device\<close> at every tensor it meets: the variable is threaded
  through, and the last tensor visited wins.
\<close>

fun apply_device :: "pyval \<Rightarrow> device option \<Rightarrow> device option" where
  "apply_device (PTensor d t) dev = Some d"
| "apply_device (PList xs) dev = fold (\<lambda>x. apply_device x) xs dev"
| "apply_device (PTuple xs) dev = fold (\<lambda>x. apply_device x) xs dev"
| "apply_device data dev = dev"

fun is_Node :: "pyval \<Rightarrow> bool" where
  "is_Node (PNode a) = True"
| "is_Node v = False"

fun is_Tensor :: "pyval \<Rightarrow> bool" where
  "is_Tensor (PTensor d t) = True"
| "is_Tensor v = False"

text \<open>\<^verbatim>\<open>lambda x: x.value\<close> on a node, and \<^verbatim>\<open>value.to(device)\<close> on a tensor.\<close>

fun value_of :: "world \<Rightarrow> pyval \<Rightarrow> pyval" where
  "value_of w (PNode a) = nvalue (node_heap w a)"
| "value_of w v = v"

fun tensor_to :: "device \<Rightarrow> pyval \<Rightarrow> pyval" where
  "tensor_to d (PTensor d' t) = PTensor d t"
| "tensor_to d v = v"

text \<open>
  Modelled from the spec: \<^verbatim>\<open>Node.set_value\<close> is part of the graph container, which is
  not in the protocol file. It publishes a result as the node's value. The readiness
  notification it triggers downstream belongs to the graph engine and is not modelled.
\<close>

definition set_value :: "addr \<Rightarrow> pyval \<Rightarrow> world \<Rightarrow> world" where
  "set_value a v w = w\<lparr>node_heap := (node_heap w)(a := (node_heap w a)\<lparr>nvalue := v\<rparr>)\<rparr>"

text \<open>
  Modelled from the spec: \<^verbatim>\<open>Node.attached\<close> is part of the graph container. It tells
  whether a listener is registered on the node.
\<close>

definition attached :: "addr \<Rightarrow> world \<Rightarrow> bool" where
  "attached a w = (listeners (node_heap w a) \<noteq> [])"

text \<open>
  Modelled from the spec: \<^verbatim>\<open>Node.prepare_inputs\<close> is part of the graph container. It
  resolves the argument nodes to their real values and returns the resolved args and
  kwargs.
\<close>

definition prepare_inputs :: "addr \<Rightarrow> world \<Rightarrow> pyval list \<times> kwargs" where
  "prepare_inputs a w =
     (map (\<lambda>x. util_apply x (value_of w) is_Node) (args (node_heap w a)),
      map (\<lambda>(k, x). (k, util_apply x (value_of w) is_Node)) (kwargs (node_heap w a)))"

text \<open>
  Modelled from the spec: \<^verbatim>\<open>Node.prepare_proxy_values\<close> is part of the graph container.
  It lifts argument values into placeholders: a node becomes its \<open>proxy_value\<close>, and
  when a device is known the tensors are placed on it.
\<close>

fun proxy_value_of :: "world \<Rightarrow> pyval \<Rightarrow> pyval" where
  "proxy_value_of w (PNode a) = proxy_value (node_heap w a)"
| "proxy_value_of w v = v"

definition prepare_proxy_value :: "world \<Rightarrow> device option \<Rightarrow> pyval \<Rightarrow> pyval" where
  "prepare_proxy_value w dev x =
     (let v = util_apply x (proxy_value_of w) is_Node
      in case dev of None \<Rightarrow> v | Some d \<Rightarrow> util_apply v (tensor_to d) is_Tensor)"

text \<open>The node references inside a value, in traversal order.\<close>

fun node_refs :: "pyval \<Rightarrow> addr list" where
  "node_refs (PNode a) = [a]"
| "node_refs (PList xs) = concat (map node_refs xs)"
| "node_refs (PTuple xs) = concat (map node_refs xs)"
| "node_refs v = []"

fun digit_char :: "nat \<Rightarrow> char" where
  "digit_char n = ''0123456789'' ! (n mod 10)"

fun show_nat :: "nat \<Rightarrow> string" where
  "show_nat n = (if n < 10 then [digit_char n] else show_nat (n div 10) @ [digit_char n])"

declare show_nat.simps [simp del]

text \<open>Registering a new node as a listener of the nodes its arguments refer to.\<close>

fun add_listener :: "addr \<Rightarrow> addr list \<Rightarrow> (addr \<Rightarrow> node) \<Rightarrow> (addr \<Rightarrow> node)" where
  "add_listener b [] h = h"
| "add_listener b (d # ds) h =
     add_listener b ds (h(d := (h d)\<lparr>listeners := listeners (h d) @ [b]\<rparr>))"

text \<open>
  Modelled from the spec: \<^verbatim>\<open>Graph.create\<close> is part of the graph container. It allocates
  a new node of the graph under a name that is unique within the graph (here the target
  and a per-target counter), with no value yet, and attaches it as a listener to the
  nodes among its arguments. It returns the proxy of the new node, which the model
  identifies with the node's address.
\<close>

definition graph_create ::
  "gref \<Rightarrow> string \<Rightarrow> pyval \<Rightarrow> pyval list \<Rightarrow> kwargs \<Rightarrow> world \<Rightarrow> addr \<times> world" where
  "graph_create g tgt pv as kws w =
     (let gr = graph_heap w g;
          nm = tgt @ ''_'' @ show_nat (name_idx gr tgt);
          b = next_addr w;
          n = \<lparr>name = nm, target = tgt, args = as, kwargs = kws, proxy_value = pv,
               nvalue = Empty, graph = g, listeners = []\<rparr>;
          deps = concat (map node_refs as) @ concat (map (\<lambda>(k, x). node_refs x) kws);
          h = add_listener b deps ((node_heap w)(b := n))
      in (b, w\<lparr>node_heap := h,
               graph_heap := (graph_heap w)(g := gr\<lparr>nodes := (nodes gr)(nm \<mapsto> b),
                                                     name_idx := (name_idx gr)(tgt := Suc (name_idx gr tgt))\<rparr>),
               next_addr := Suc b\<rparr>))"

text \<open>
  Modelled from the spec: \<^verbatim>\<open>Node.create\<close> is part of the graph container. It creates
  the node in the graph of the node it is called on.
\<close>

definition node_create ::
  "addr \<Rightarrow> string \<Rightarrow> pyval \<Rightarrow> pyval list \<Rightarrow> kwargs \<Rightarrow> world \<Rightarrow> addr \<times> world" where
  "node_create a tgt pv as kws w = graph_create (graph (node_heap w a)) tgt pv as kws w"

section \<open>Protocol and LockProtocol\<close>

text \<open>\<^verbatim>\<open>Protocol.execute\<close> is \<^verbatim>\<open>pass\<close>; LockProtocol inherits it.\<close>

definition Protocol_execute :: "addr \<Rightarrow> world \<Rightarrow> world" where
  "Protocol_execute a w = w"

definition LockProtocol_name :: string where
  "LockProtocol_name = ''lock''"

definition LockProtocol_add :: "addr \<Rightarrow> world \<Rightarrow> addr \<times> world" where
  "LockProtocol_add a w = node_create a LockProtocol_name PNone [PNode a] [] w"

definition LockProtocol_execute :: "addr \<Rightarrow> world \<Rightarrow> world" where
  "LockProtocol_execute a w = Protocol_execute a w"

section \<open>ApplyModuleProtocol\<close>

definition ApplyModuleProtocol_name :: string where
  "ApplyModuleProtocol_name = ''module''"

definition ApplyModuleProtocol_attachment_name :: string where
  "ApplyModuleProtocol_attachment_name = ''nnsight_root_module''"

definition set_attachment :: "gref \<Rightarrow> string \<Rightarrow> pyval \<Rightarrow> world \<Rightarrow> world" where
  "set_attachment g k v w =
     w\<lparr>graph_heap := (graph_heap w)
        (g := (graph_heap w g)\<lparr>attachments := (attachments (graph_heap w g))(k \<mapsto> v)\<rparr>)\<rparr>"

definition set_module :: "gref \<Rightarrow> pyval \<Rightarrow> world \<Rightarrow> world" where
  "set_module g m w = set_attachment g ApplyModuleProtocol_attachment_name m w"

definition get_module :: "gref \<Rightarrow> world \<Rightarrow> error + pyval" where
  "get_module g w = dict_item (attachments (graph_heap w g)) ApplyModuleProtocol_attachment_name"

text \<open>\<^verbatim>\<open>getattr(object, atom)\<close>: only modules carry attributes in the model.\<close>

fun getattr :: "world \<Rightarrow> pyval \<Rightarrow> string \<Rightarrow> error + pyval" where
  "getattr w (PModule m) atom =
     (case attrs (module_heap w m) atom of None \<Rightarrow> Inl (AttributeError atom) | Some v \<Rightarrow> Inr v)"
| "getattr w v atom = Inl (AttributeError atom)"

text \<open>\<^verbatim>\<open>target.split(".")\<close>.\<close>

fun split_dot :: "string \<Rightarrow> string list" where
  "split_dot [] = [[]]"
| "split_dot (c # cs) =
     (if c = CHR ''.'' then [] # split_dot cs
      else (case split_dot cs of [] \<Rightarrow> [[c]] | x # xs \<Rightarrow> (c # x) # xs))"

fun fetch_atoms :: "world \<Rightarrow> pyval \<Rightarrow> string list \<Rightarrow> error + pyval" where
  "fetch_atoms w obj [] = Inr obj"
| "fetch_atoms w obj (atom # rest) =
     (if atom = [] then fetch_atoms w obj rest
      else (case getattr w obj atom of Inl e \<Rightarrow> Inl e | Inr obj' \<Rightarrow> fetch_atoms w obj' rest))"

text \<open>
  Modelled from the spec: \<^verbatim>\<open>util.fetch_attr(object, target)\<close> is not part of the
  protocol file. It looks an object up by attribute path, starting from \<open>object\<close>: the
  path is split at the dots and each non-empty atom is one \<^verbatim>\<open>getattr\<close>.
\<close>

definition util_fetch_attr :: "world \<Rightarrow> pyval \<Rightarrow> string \<Rightarrow> error + pyval" where
  "util_fetch_attr w obj tgt = fetch_atoms w obj (split_dot tgt)"

text \<open>\<^verbatim>\<open>module.forward(*args, **kwargs)\<close>.\<close>

fun call_forward :: "world \<Rightarrow> pyval \<Rightarrow> pyval list \<Rightarrow> kwargs \<Rightarrow> error + pyval" where
  "call_forward w (PModule m) as kws = forward (module_heap w m) as kws"
| "call_forward w v as kws = Inl (AttributeError ''forward'')"

text \<open>
  \<^verbatim>\<open>call_module\<close>. The path is whatever object arrives: \<^verbatim>\<open>get_module\<close> is evaluated
  first, and \<^verbatim>\<open>util.fetch_attr\<close> then fails on a path that is no string, which has no
  \<^verbatim>\<open>split\<close>.
\<close>

fun fetch_attr_obj :: "world \<Rightarrow> pyval \<Rightarrow> pyval \<Rightarrow> error + pyval" where
  "fetch_attr_obj w root (PStr module_path) = util_fetch_attr w root module_path"
| "fetch_attr_obj w root v = Inl (AttributeError ''split'')"

definition call_module :: "gref \<Rightarrow> pyval \<Rightarrow> pyval list \<Rightarrow> kwargs \<Rightarrow> world \<Rightarrow> error + pyval" where
  "call_module g module_path as kws w =
     (case get_module g w of
        Inl e \<Rightarrow> Inl e
      | Inr root \<Rightarrow>
          (case fetch_attr_obj w root module_path of
             Inl e \<Rightarrow> Inl e
           | Inr m \<Rightarrow> call_forward w m as kws))"

text \<open>
  The \<^verbatim>\<open>try\<close> block of \<^verbatim>\<open>add\<close>: the device of the root module's first parameter. The bare
  \<^verbatim>\<open>except\<close> turns every failure (no root, not a module, no parameter) into
  \<^verbatim>\<open>device = None\<close>.
\<close>

definition resolve_device :: "gref \<Rightarrow> world \<Rightarrow> device option" where
  "resolve_device g w =
     (case get_module g w of
        Inl e \<Rightarrow> None
      | Inr (PModule m) \<Rightarrow> (case parameters (module_heap w m) of [] \<Rightarrow> None | d # ds \<Rightarrow> Some d)
      | Inr v \<Rightarrow> None)"

text \<open>
  The file imports \<^verbatim>\<open>Node\<close> only under \<^verbatim>\<open>if TYPE_CHECKING:\<close>, and
  \<^verbatim>\<open>typing.TYPE_CHECKING\<close> is false when the program runs. The global name \<^verbatim>\<open>Node\<close>
  that \<^verbatim>\<open>add\<close> evaluates in validation mode is therefore bound only for a type checker.
  The binding is a value of the model: \<open>None\<close> is the unbound name, whose evaluation
  raises NameError.
\<close>

definition TYPE_CHECKING :: bool where
  "TYPE_CHECKING = False"

type_synonym Node_class = "world \<Rightarrow> device option \<Rightarrow> pyval \<Rightarrow> pyval"

definition Node_global :: "Node_class option" where
  "Node_global = (if TYPE_CHECKING then Some prepare_proxy_value else None)"

text \<open>
  \<^verbatim>\<open>ApplyModuleProtocol.add\<close>. In validation mode the arguments of the call of
  \<^verbatim>\<open>call_module\<close> are evaluated before the call, and the first of them that is not a
  plain variable looks the global \<^verbatim>\<open>Node\<close> up. The context managers of the fake-tensor
  mode only change how tensors compute; the model calls the module's \<open>forward\<close> on the
  placeholder values.
\<close>

definition ApplyModuleProtocol_add ::
  "gref \<Rightarrow> string \<Rightarrow> pyval list \<Rightarrow> kwargs \<Rightarrow> world \<Rightarrow> error + addr \<times> world" where
  "ApplyModuleProtocol_add g module_path as kws w =
     (if validate (graph_heap w g) then
        (let device = resolve_device g w
         in case Node_global of
              None \<Rightarrow> Inl (NameError ''Node'')
            | Some prepare_proxy_values \<Rightarrow>
                (case call_module g (PStr module_path)
                        (map (prepare_proxy_values w device) as)
                        (map (\<lambda>(k, x). (k, prepare_proxy_values w device x)) kws) w of
                   Inl e \<Rightarrow> Inl e
                 | Inr v \<Rightarrow>
                     Inr (graph_create g ApplyModuleProtocol_name v (PStr module_path # as) kws w)))
      else Inr (graph_create g ApplyModuleProtocol_name Empty (PStr module_path # as) kws w))"

text \<open>
  \<^verbatim>\<open>ApplyModuleProtocol.execute\<close>. The unpacking \<^verbatim>\<open>module_path, *args = args\<close> raises
  ValueError on an empty list.
\<close>

definition ApplyModuleProtocol_execute :: "addr \<Rightarrow> world \<Rightarrow> error + world" where
  "ApplyModuleProtocol_execute a w =
     (let (as, kws) = prepare_inputs a w
      in case as of
           [] \<Rightarrow> Inl ValueError
         | module_path # rest \<Rightarrow>
             (case call_module (graph (node_heap w a)) module_path rest kws w of
                Inl e \<Rightarrow> Inl e
              | Inr output \<Rightarrow> Inr (set_value a output w)))"

section \<open>SwapProtocol\<close>

definition SwapProtocol_name :: string where
  "SwapProtocol_name = ''swap''"

definition SwapProtocol_attachment_name :: string where
  "SwapProtocol_attachment_name = ''nnsight_swap''"

definition SwapProtocol_add :: "addr \<Rightarrow> pyval \<Rightarrow> world \<Rightarrow> addr \<times> world" where
  "SwapProtocol_add a v w = node_create a SwapProtocol_name (PBool True) [PNode a, v] [] w"

text \<open>\<^verbatim>\<open>swap.set_value(x)\<close> on whatever the attachment holds: only a node has the method.\<close>

fun obj_set_value :: "pyval \<Rightarrow> pyval \<Rightarrow> world \<Rightarrow> error + world" where
  "obj_set_value (PNode s) v w = Inr (set_value s v w)"
| "obj_set_value x v w = Inl (AttributeError ''set_value'')"

definition SwapProtocol_execute :: "addr \<Rightarrow> world \<Rightarrow> error + world" where
  "SwapProtocol_execute a w =
     (let g = graph (node_heap w a);
          swap = dict_get (attachments (graph_heap w g)) SwapProtocol_attachment_name PNone
      in case (if swap \<noteq> PNone then obj_set_value swap (PBool False) w else Inr w) of
           Inl e \<Rightarrow> Inl e
         | Inr w1 \<Rightarrow> Inr (set_attachment g SwapProtocol_attachment_name (PNode a) w1))"

text \<open>\<^verbatim>\<open>swap.args[1]\<close>.\<close>

fun swap_args_1 :: "world \<Rightarrow> pyval \<Rightarrow> error + pyval" where
  "swap_args_1 w (PNode s) =
     (case args (node_heap w s) of x0 # x1 # xs \<Rightarrow> Inr x1 | xs \<Rightarrow> Inl IndexError)"
| "swap_args_1 w x = Inl (AttributeError ''args'')"

definition SwapProtocol_get_swap :: "gref \<Rightarrow> pyval \<Rightarrow> world \<Rightarrow> error + pyval \<times> world" where
  "SwapProtocol_get_swap g v w =
     (let swap = dict_get (attachments (graph_heap w g)) SwapProtocol_attachment_name PNone
      in if swap \<noteq> PNone then
           (let device = apply_device v None
            in case swap_args_1 w swap of
                 Inl e \<Rightarrow> Inl e
               | Inr r \<Rightarrow>
                   (let v1 = util_apply r (value_of w) is_Node;
                        v2 = (case device of
                                None \<Rightarrow> v1
                              | Some d \<Rightarrow> util_apply v1 (tensor_to d) is_Tensor)
                    in case obj_set_value swap (PBool True) w of
                         Inl e \<Rightarrow> Inl e
                       | Inr w1 \<Rightarrow>
                           Inr (v2, set_attachment g SwapProtocol_attachment_name PNone w1)))
         else Inr (v, w))"

section \<open>GradProtocol\<close>

definition GradProtocol_name :: string where
  "GradProtocol_name = ''grad''"

definition GradProtocol_attachment_name :: string where
  "GradProtocol_attachment_name = ''nnsight_backward_idx''"

definition GradProtocol_add :: "addr \<Rightarrow> world \<Rightarrow> addr \<times> world" where
  "GradProtocol_add a w =
     (let idx = dict_get (attachments (graph_heap w (graph (node_heap w a))))
                  GradProtocol_attachment_name (PInt 0)
      in node_create a GradProtocol_name (proxy_value (node_heap w a)) [PNode a, idx] [] w)"

text \<open>Python's integers, of which the booleans are a subclass.\<close>

fun py_int :: "pyval \<Rightarrow> int option" where
  "py_int (PInt n) = Some n"
| "py_int (PBool b) = Some (if b then 1 else 0)"
| "py_int v = None"

definition GradProtocol_increment :: "gref \<Rightarrow> world \<Rightarrow> error + world" where
  "GradProtocol_increment g w =
     (let idx = dict_get (attachments (graph_heap w g)) GradProtocol_attachment_name (PInt 0)
      in case py_int idx of
           None \<Rightarrow> Inl TypeError
         | Some n \<Rightarrow> Inr (set_attachment g GradProtocol_attachment_name (PInt (n + 1)) w))"

text \<open>
  The closure \<^verbatim>\<open>grad\<close> of \<^verbatim>\<open>GradProtocol.execute\<close>, as a function of the hook it belongs
  to. \<^verbatim>\<open>return None\<close> is the result \<open>PNone\<close>. A counter that is no number compares
  unequal to 0 and cannot be decremented.
\<close>

definition grad :: "href \<Rightarrow> pyval \<Rightarrow> world \<Rightarrow> error + pyval \<times> world" where
  "grad h v w =
     (let c = hook_heap w h; a = hook_node c
      in case py_int (backward_idx c) of
           None \<Rightarrow> Inl TypeError
         | Some n \<Rightarrow>
             if n = 0 then
               (let w1 = set_value a v w
                in case (if attached a w1
                         then SwapProtocol_get_swap (graph (node_heap w1 a)) v w1
                         else Inr (v, w1)) of
                     Inl e \<Rightarrow> Inl e
                   | Inr (v', w2) \<Rightarrow>
                       Inr (v', w2\<lparr>hook_heap := (hook_heap w2)
                                  (h := (hook_heap w2 h)\<lparr>backward_idx := PInt (- 1),
                                                         registered := False\<rparr>)\<rparr>))
             else Inr (PNone, w\<lparr>hook_heap := (hook_heap w)
                                 (h := c\<lparr>backward_idx := PInt (n - 1)\<rparr>)\<rparr>))"

text \<open>
  \<^verbatim>\<open>GradProtocol.execute\<close>: the inputs are resolved, the first must be a tensor (only a
  tensor has \<^verbatim>\<open>register_hook\<close>), and the closure is registered on it. The result is the
  handle of the hook together with the new store.
\<close>

definition GradProtocol_execute :: "addr \<Rightarrow> world \<Rightarrow> error + href \<times> world" where
  "GradProtocol_execute a w =
     (let (as, kws) = prepare_inputs a w
      in case as of
           PTensor d t # idx # rest \<Rightarrow>
             (let h = next_hook w
              in Inr (h, w\<lparr>hook_heap := (hook_heap w)
                           (h := \<lparr>hook_node = a, backward_idx = idx,
                                  hook_tensor = t, registered = True\<rparr>),
                         next_hook := Suc h\<rparr>))
         | x # idx # rest \<Rightarrow> Inl (AttributeError ''register_hook'')
         | xs \<Rightarrow> Inl IndexError)"

text \<open>
  The reverse traversal of torch invokes a hook at an occurrence of its tensor only while
  the handle is registered; a removed hook is skipped and the gradient passes unchanged.
\<close>

definition fire :: "href \<Rightarrow> pyval \<Rightarrow> world \<Rightarrow> error + pyval \<times> world" where
  "fire h v w = (if registered (hook_heap w h) then grad h v w else Inr (PNone, w))"

text \<open>
  A sequence of invocations, one per gradient value, with the list of what each returned.
  \<open>run\<close> is parametrised by the kind of invocation: \<open>fire\<close> for occurrences seen by the
  reverse traversal, \<open>grad\<close> for direct calls of the closure.
\<close>

fun run :: "(href \<Rightarrow> pyval \<Rightarrow> world \<Rightarrow> error + pyval \<times> world) \<Rightarrow> href \<Rightarrow> pyval list \<Rightarrow> world
              \<Rightarrow> error + pyval list \<times> world" where
  "run f h [] w = Inr ([], w)"
| "run f h (v # vs) w =
     (case f h v w of
        Inl e \<Rightarrow> Inl e
      | Inr (r, w1) \<Rightarrow>
          (case run f h vs w1 of Inl e \<Rightarrow> Inl e | Inr (rs, w2) \<Rightarrow> Inr (r # rs, w2)))"

section \<open>BridgeProtocol\<close>

definition BridgeProtocol_name :: string where
  "BridgeProtocol_name = ''bridge''"

definition BridgeProtocol_attachment_name :: string where
  "BridgeProtocol_attachment_name = ''nnsight_bridge''"

definition BridgeProtocol_add :: "addr \<Rightarrow> addr \<Rightarrow> world \<Rightarrow> addr \<times> world" where
  "BridgeProtocol_add from_node to_node w =
     (let (lock_node, w1) = LockProtocol_add from_node w
      in node_create to_node BridgeProtocol_name (proxy_value (node_heap w1 from_node))
           [PInt (gid (graph_heap w1 (graph (node_heap w1 from_node)))),
            PStr (name (node_heap w1 lock_node))] [] w1)"

definition set_bridge :: "gref \<Rightarrow> pyval \<Rightarrow> world \<Rightarrow> world" where
  "set_bridge g b w = set_attachment g BridgeProtocol_attachment_name b w"

definition has_bridge :: "gref \<Rightarrow> world \<Rightarrow> bool" where
  "has_bridge g w = (attachments (graph_heap w g) BridgeProtocol_attachment_name \<noteq> None)"

text \<open>
  \<^verbatim>\<open>get_bridge\<close>: the branch for a graph without a bridge is \<^verbatim>\<open>pass\<close>, so both cases end
  in the subscript on the attachments.
\<close>

definition get_bridge :: "gref \<Rightarrow> world \<Rightarrow> error + pyval" where
  "get_bridge g w =
     (if \<not> has_bridge g w
      then dict_item (attachments (graph_heap w g)) BridgeProtocol_attachment_name
      else dict_item (attachments (graph_heap w g)) BridgeProtocol_attachment_name)"

text \<open>
  Modelled from the spec: \<^verbatim>\<open>Bridge.get_graph\<close> belongs to the Bridge class, which is not in
  the protocol file. It looks the source graph up by its identifier in the directory.
\<close>

definition get_graph :: "pyval \<Rightarrow> pyval \<Rightarrow> error + gref" where
  "get_graph bridge k =
     (case bridge of
        PBridge b \<Rightarrow>
          (case k of
             PInt i \<Rightarrow> (case id_to_graph b i of None \<Rightarrow> Inl (KeyError k) | Some g \<Rightarrow> Inr g)
           | _ \<Rightarrow> Inl (KeyError k))
      | _ \<Rightarrow> Inl (AttributeError ''get_graph''))"

text \<open>\<^verbatim>\<open>graph.nodes[lock_node_name]\<close>.\<close>

fun nodes_item :: "world \<Rightarrow> gref \<Rightarrow> pyval \<Rightarrow> error + addr" where
  "nodes_item w g (PStr nm) =
     (case nodes (graph_heap w g) nm of None \<Rightarrow> Inl (KeyError (PStr nm)) | Some l \<Rightarrow> Inr l)"
| "nodes_item w g k = Inl (KeyError k)"

text \<open>\<^verbatim>\<open>bridge.release\<close>, read after \<^verbatim>\<open>get_graph\<close> has shown the object to be a Bridge.\<close>

fun bridge_release :: "pyval \<Rightarrow> bool" where
  "bridge_release (PBridge b) = release b"
| "bridge_release x = False"

text \<open>
  \<^verbatim>\<open>BridgeProtocol.execute\<close> writes twice at most, and the order of the two writes is
  part of its behaviour. \<open>BridgeProtocol_execute_steps\<close> is the body of the method with
  the store after each of its \<^verbatim>\<open>set_value\<close> calls, in the order of the calls; the store
  the method leaves is the last of them.
\<close>

definition BridgeProtocol_execute_steps :: "addr \<Rightarrow> world \<Rightarrow> error + world list" where
  "BridgeProtocol_execute_steps a w =
     (case get_bridge (graph (node_heap w a)) w of
        Inl e \<Rightarrow> Inl e
      | Inr bridge \<Rightarrow>
          (case args (node_heap w a) of
             [from_graph_id, lock_node_name] \<Rightarrow>
               (case get_graph bridge from_graph_id of
                  Inl e \<Rightarrow> Inl e
                | Inr g \<Rightarrow>
                    (case nodes_item w g lock_node_name of
                       Inl e \<Rightarrow> Inl e
                     | Inr lock_node \<Rightarrow>
                         (case args (node_heap w lock_node) of
                            [] \<Rightarrow> Inl IndexError
                          | PNode value_node # rest \<Rightarrow>
                              (let w1 = set_value a (nvalue (node_heap w value_node)) w
                               in Inr (if bridge_release bridge
                                       then [w1, set_value lock_node PNone w1] else [w1]))
                          | x # rest \<Rightarrow> Inl (AttributeError ''value''))))
           | xs \<Rightarrow> Inl ValueError))"

definition BridgeProtocol_execute :: "addr \<Rightarrow> world \<Rightarrow> error + world" where
  "BridgeProtocol_execute a w =
     (case BridgeProtocol_execute_steps a w of Inl e \<Rightarrow> Inl e | Inr ws \<Rightarrow> Inr (last ws))"

section \<open>Notions for stating the properties\<close>

text \<open>
  The devices of the tensors inside a value, in the order in which the traversal of
  \<^verbatim>\<open>util.apply\<close> meets them, and the relocation step of \<^verbatim>\<open>get_swap\<close>
  (\<^verbatim>\<open>if device is not None: value = util.apply(value, _to, torch.Tensor)\<close>) under a name.
\<close>

fun tensor_devices :: "pyval \<Rightarrow> device list" where
  "tensor_devices (PTensor d t) = [d]"
| "tensor_devices (PList xs) = concat (map tensor_devices xs)"
| "tensor_devices (PTuple xs) = concat (map tensor_devices xs)"
| "tensor_devices v = []"

definition relocate :: "device option \<Rightarrow> pyval \<Rightarrow> pyval" where
  "relocate device v = (case device of None \<Rightarrow> v | Some d \<Rightarrow> util_apply v (tensor_to d) is_Tensor)"

text \<open>
  What the specification says of the value a consultation returns, in its own words and
  without the traversal of \<^verbatim>\<open>util.apply\<close>: the replacement "unwrapped to real value"
  (a reference to a node stands for the value of that node, inside lists and tuples too),
  and "relocated" to a device (every tensor in it is on that device, its data kept).
\<close>

fun real_value :: "world \<Rightarrow> pyval \<Rightarrow> pyval" where
  "real_value w (PNode n) = nvalue (node_heap w n)"
| "real_value w (PList xs) = PList (map (real_value w) xs)"
| "real_value w (PTuple xs) = PTuple (map (real_value w) xs)"
| "real_value w v = v"

fun placed_on :: "device \<Rightarrow> pyval \<Rightarrow> pyval" where
  "placed_on d (PTensor d' t) = PTensor d t"
| "placed_on d (PList xs) = PList (map (placed_on d) xs)"
| "placed_on d (PTuple xs) = PTuple (map (placed_on d) xs)"
| "placed_on d v = v"

text \<open>
  The attachment \<^verbatim>\<open>nnsight_swap\<close> as the protocol itself leaves it: absent, \<^verbatim>\<open>None\<close>
  (after a consultation), or a node with the two args that \<^verbatim>\<open>SwapProtocol.add\<close> gives
  it (after an \<^verbatim>\<open>execute\<close>).
\<close>

definition swap_ready :: "gref \<Rightarrow> world \<Rightarrow> bool" where
  "swap_ready g w =
     (case dict_get (attachments (graph_heap w g)) ''nnsight_swap'' PNone of
        PNone \<Rightarrow> True
      | PNode s \<Rightarrow> 2 \<le> length (args (node_heap w s))
      | x \<Rightarrow> False)"

section \<open>Example stores\<close>

text \<open>
  A store in which nothing has happened yet: every graph is empty, has no attachment and
  is not validating; graph \<open>g\<close> has the identifier \<open>g\<close>.
\<close>

definition empty_node :: node where
  "empty_node = \<lparr>name = [], target = [], args = [], kwargs = [], proxy_value = Empty,
                  nvalue = Empty, graph = 0, listeners = []\<rparr>"

definition empty_graph :: graph where
  "empty_graph = \<lparr>gid = 0, nodes = Map.empty, attachments = Map.empty, validate = False,
                   name_idx = (\<lambda>t. 0)\<rparr>"

definition empty_module :: module where
  "empty_module = \<lparr>forward = (\<lambda>as kws. Inl (ModuleError ''forward'')), parameters = [],
                    attrs = Map.empty\<rparr>"

definition empty_closure :: grad_closure where
  "empty_closure = \<lparr>hook_node = 0, backward_idx = PNone, hook_tensor = 0, registered = False\<rparr>"

definition init_world :: world where
  "init_world = \<lparr>node_heap = (\<lambda>a. empty_node), graph_heap = (\<lambda>g. empty_graph\<lparr>gid := int g\<rparr>),
                  module_heap = (\<lambda>m. empty_module), hook_heap = (\<lambda>h. empty_closure),
                  next_addr = 0, next_hook = 0\<rparr>"

text \<open>
  Two nodes \<open>0\<close> and \<open>1\<close> of graph \<open>0\<close>, with a Swap node \<open>2\<close> on the first
  (replacement 5) and a Swap node \<open>3\<close> on the second (replacement 7), none executed.
\<close>

definition two_swaps :: world where
  "two_swaps =
     (let (N, w1) = graph_create 0 ''x'' Empty [] [] init_world;
          (M, w2) = graph_create 0 ''y'' Empty [] [] w1;
          (s1, w3) = SwapProtocol_add N (PInt 5) w2;
          (s2, w4) = SwapProtocol_add M (PInt 7) w3
      in w4)"

text \<open>
  A node \<open>0\<close> with the value 5, a node \<open>1\<close>, and a Swap node \<open>2\<close> on node \<open>1\<close>
  whose replacement is a list of node \<open>0\<close> and a tensor on the cpu; the Swap node has
  executed.
\<close>

definition nested_swap :: world where
  "nested_swap =
     (let (x, w1) = graph_create 0 ''x'' Empty [] [] init_world;
          w2 = set_value x (PInt 5) w1;
          (y, w3) = graph_create 0 ''y'' Empty [] [] w2;
          (s, w4) = SwapProtocol_add y (PList [PNode x, PTensor ''cpu'' 3]) w3
      in case SwapProtocol_execute s w4 of Inr w5 \<Rightarrow> w5 | Inl e \<Rightarrow> w4)"

text \<open>
  A tensor node \<open>0\<close> with a value, and a Grad node \<open>1\<close> on it. In \<open>grad_example\<close> the
  node was added after one \<^verbatim>\<open>increment\<close> (counter 1); \<open>grad_swap_example\<close> has in
  addition a Swap node \<open>2\<close> on the Grad node, installed as the active swap. In
  \<open>capture_example\<close> the Grad node was added with counter 0 and its hook \<open>0\<close> is
  registered.
\<close>

definition grad_example :: world where
  "grad_example =
     (let (t, w1) = graph_create 0 ''x'' Empty [] [] init_world;
          w2 = set_value t (PTensor ''cpu'' 7) w1;
          w3 = set_attachment 0 ''nnsight_backward_idx'' (PInt 1) w2;
          (n, w4) = GradProtocol_add t w3
      in w4)"

definition grad_swap_example :: world where
  "grad_swap_example =
     (let (s, w5) = SwapProtocol_add 1 (PInt 99) grad_example
      in set_attachment 0 ''nnsight_swap'' (PNode s) w5)"

definition capture_example :: world where
  "capture_example =
     (let (t, w1) = graph_create 0 ''x'' Empty [] [] init_world;
          w2 = set_value t (PTensor ''cpu'' 7) w1;
          (n, w3) = GradProtocol_add t w2
      in w3\<lparr>hook_heap := (hook_heap w3)
             (0 := \<lparr>hook_node = n, backward_idx = PInt 0, hook_tensor = 7, registered = True\<rparr>),
            next_hook := 1\<rparr>)"

text \<open>
  Two graphs under one bridge directory with the release flag set: a source node \<open>0\<close> of
  graph \<open>0\<close> with the value 42 and a node \<open>1\<close> of graph \<open>1\<close>, which holds the
  directory. \<open>bridged_example\<close> is the store after \<^verbatim>\<open>BridgeProtocol.add\<close> from the first to
  the second: the lock is node \<open>2\<close>, the bridge node is node \<open>3\<close>.
\<close>

definition bridge_example :: world where
  "bridge_example =
     (let (src, w1) = graph_create 0 ''x'' Empty [] [] init_world;
          w2 = set_value src (PInt 42) w1;
          (dst, w3) = graph_create 1 ''y'' Empty [] [] w2
      in set_bridge 1 (PBridge \<lparr>id_to_graph = [0 \<mapsto> 0, 1 \<mapsto> 1], release = True\<rparr>) w3)"

definition bridged_example :: world where
  "bridged_example = snd (BridgeProtocol_add 0 1 bridge_example)"

text \<open>
  A root module \<open>0\<close> without parameters whose attribute \<^verbatim>\<open>layer1\<close> is the module \<open>1\<close>;
  the forward of \<open>1\<close> doubles its one integer argument. Graph \<open>0\<close> has the root attached
  and a node \<open>0\<close> with proxy value 4 and value 21. \<open>applied_example\<close> is the store after
  \<^verbatim>\<open>ApplyModuleProtocol.add\<close> of \<^verbatim>\<open>layer1\<close> on that node (the new node is \<open>1\<close>), and
  \<open>validating g w\<close> is \<open>w\<close> with graph \<open>g\<close> in validation mode.
\<close>

definition double_forward :: "pyval list \<Rightarrow> kwargs \<Rightarrow> error + pyval" where
  "double_forward as kws =
     (case as of [PInt n] \<Rightarrow> Inr (PInt (2 * n)) | xs \<Rightarrow> Inl (ModuleError ''forward''))"

definition module_example :: world where
  "module_example =
     (let w0 = init_world\<lparr>module_heap := (module_heap init_world)
                 (0 := \<lparr>forward = (\<lambda>as kws. Inl (ModuleError ''forward'')), parameters = [],
                        attrs = [''layer1'' \<mapsto> PModule 1]\<rparr>,
                  1 := \<lparr>forward = double_forward, parameters = [], attrs = Map.empty\<rparr>)\<rparr>;
          w1 = set_module 0 (PModule 0) w0;
          (x, w2) = graph_create 0 ''x'' (PInt 4) [] [] w1
      in set_value x (PInt 21) w2)"

definition applied_example :: world where
  "applied_example =
     (case ApplyModuleProtocol_add 0 ''layer1'' [PNode 0] [] module_example of
        Inr (n, w) \<Rightarrow> w
      | Inl e \<Rightarrow> module_example)"

definition validating :: "gref \<Rightarrow> world \<Rightarrow> world" where
  "validating g w = w\<lparr>graph_heap := (graph_heap w)(g := (graph_heap w g)\<lparr>validate := True\<rparr>)\<rparr>"

section \<open>What creating a node changes\<close>

lemmas init_defs = init_world_def empty_node_def empty_graph_def empty_module_def empty_closure_def

lemmas example_defs = graph_create_def node_create_def GradProtocol_add_def SwapProtocol_add_def
  set_value_def set_attachment_def dict_get_def prepare_inputs_def attached_def Let_def
  GradProtocol_name_def GradProtocol_attachment_name_def SwapProtocol_name_def


lemma add_listener_fields:
  "name (add_listener b ds h x) = name (h x) \<and>
   target (add_listener b ds h x) = target (h x) \<and>
   args (add_listener b ds h x) = args (h x) \<and>
   kwargs (add_listener b ds h x) = kwargs (h x) \<and>
   proxy_value (add_listener b ds h x) = proxy_value (h x) \<and>
   nvalue (add_listener b ds h x) = nvalue (h x) \<and>
   graph (add_listener b ds h x) = graph (h x)"
  by (induction ds arbitrary: h) simp_all

lemma add_listener_other:
  "x \<notin> set ds \<Longrightarrow> add_listener b ds h x = h x"
  by (induction ds arbitrary: h) auto

lemma graph_create_new:
  assumes "graph_create g tgt pv as kws w = (b, w')"
  shows "b = next_addr w"
    and "name (node_heap w' b) = tgt @ ''_'' @ show_nat (name_idx (graph_heap w g) tgt)"
    and "target (node_heap w' b) = tgt"
    and "args (node_heap w' b) = as"
    and "kwargs (node_heap w' b) = kws"
    and "proxy_value (node_heap w' b) = pv"
    and "nvalue (node_heap w' b) = Empty"
    and "graph (node_heap w' b) = g"
    and "nodes (graph_heap w' g) (name (node_heap w' b)) = Some b"
    and "next_addr w' = Suc b"
  using assms by (auto simp: graph_create_def Let_def add_listener_fields)

lemma graph_create_old:
  assumes "graph_create g tgt pv as kws w = (b, w')" and "x \<noteq> next_addr w"
  shows "name (node_heap w' x) = name (node_heap w x)"
    and "target (node_heap w' x) = target (node_heap w x)"
    and "args (node_heap w' x) = args (node_heap w x)"
    and "kwargs (node_heap w' x) = kwargs (node_heap w x)"
    and "proxy_value (node_heap w' x) = proxy_value (node_heap w x)"
    and "nvalue (node_heap w' x) = nvalue (node_heap w x)"
    and "graph (node_heap w' x) = graph (node_heap w x)"
  using assms by (auto simp: graph_create_def Let_def add_listener_fields)

lemma graph_create_graphs:
  assumes "graph_create g tgt pv as kws w = (b, w')"
  shows "attachments (graph_heap w' g') = attachments (graph_heap w g')"
    and "gid (graph_heap w' g') = gid (graph_heap w g')"
    and "validate (graph_heap w' g') = validate (graph_heap w g')"
    and "g' \<noteq> g \<Longrightarrow> graph_heap w' g' = graph_heap w g'"
    and "module_heap w' = module_heap w"
    and "hook_heap w' = hook_heap w"
    and "next_hook w' = next_hook w"
  using assms by (auto simp: graph_create_def Let_def split: if_splits)

section \<open>Lock\<close>

text \<open>
  C9. \<^verbatim>\<open>LockProtocol.add\<close> creates a node of target \<^verbatim>\<open>lock\<close> in the graph of the given
  node, whose single argument is the given node and whose proxy value is \<^verbatim>\<open>None\<close>; the
  new node has no value. \<^verbatim>\<open>LockProtocol.execute\<close> (inherited from \<^verbatim>\<open>Protocol\<close>) is a
  no-op: on the new lock node, and on any node of any store, it returns the store as it
  was, so no node value, graph or attachment changes.
\<close>

theorem lock_add_then_execute_is_noop:
  "(case LockProtocol_add a w of
      (l, w') \<Rightarrow>
        l = next_addr w \<and>
        target (node_heap w' l) = ''lock'' \<and>
        args (node_heap w' l) = [PNode a] \<and>
        kwargs (node_heap w' l) = [] \<and>
        proxy_value (node_heap w' l) = PNone \<and>
        nvalue (node_heap w' l) = Empty \<and>
        graph (node_heap w' l) = graph (node_heap w a) \<and>
        nodes (graph_heap w' (graph (node_heap w a))) (name (node_heap w' l)) = Some l \<and>
        LockProtocol_execute l w' = w')
   \<and> LockProtocol_execute n w = w"
proof -
  obtain l w' where lw: "LockProtocol_add a w = (l, w')" by (cases "LockProtocol_add a w")
  then have c: "graph_create (graph (node_heap w a)) ''lock'' PNone [PNode a] [] w = (l, w')"
    by (simp add: LockProtocol_add_def node_create_def LockProtocol_name_def)
  show ?thesis
    using graph_create_new[OF c]
    by (simp add: lw LockProtocol_execute_def Protocol_execute_def)
qed


section \<open>Missing attachments\<close>

text \<open>
  C6. When the attachments of a graph lack the key \<^verbatim>\<open>nnsight_root_module\<close>,
  \<^verbatim>\<open>get_module\<close> fails with the KeyError of that key instead of returning a default,
  and so does \<^verbatim>\<open>call_module\<close>. When the attachments of the graph of a bridge node lack
  the key \<^verbatim>\<open>nnsight_bridge\<close>, \<^verbatim>\<open>has_bridge\<close> is false, the empty branch of
  \<^verbatim>\<open>get_bridge\<close> falls through to the subscript, which fails with the KeyError of that
  key, and \<^verbatim>\<open>BridgeProtocol.execute\<close> fails with it before it touches any node.
\<close>

theorem missing_attachment_is_KeyError:
  "(attachments (graph_heap w g) ''nnsight_root_module'' = None \<longrightarrow>
      get_module g w = Inl (KeyError (PStr ''nnsight_root_module'')) \<and>
      call_module g module_path as kws w = Inl (KeyError (PStr ''nnsight_root_module'')))
   \<and> (attachments (graph_heap w (graph (node_heap w a))) ''nnsight_bridge'' = None \<longrightarrow>
      \<not> has_bridge (graph (node_heap w a)) w \<and>
      get_bridge (graph (node_heap w a)) w = Inl (KeyError (PStr ''nnsight_bridge'')) \<and>
      BridgeProtocol_execute a w = Inl (KeyError (PStr ''nnsight_bridge'')))"
  by (simp add: get_module_def call_module_def dict_item_def get_bridge_def has_bridge_def
      BridgeProtocol_execute_def BridgeProtocol_execute_steps_def
      ApplyModuleProtocol_attachment_name_def
      BridgeProtocol_attachment_name_def)

theorem missing_attachment_is_KeyError_witness:
  "get_module 0 init_world = Inl (KeyError (PStr ''nnsight_root_module'')) \<and>
   call_module 0 (PStr ''layer1'') [PInt 1] [] init_world
     = Inl (KeyError (PStr ''nnsight_root_module'')) \<and>
   get_bridge 0 init_world = Inl (KeyError (PStr ''nnsight_bridge'')) \<and>
   BridgeProtocol_execute 0 init_world = Inl (KeyError (PStr ''nnsight_bridge''))"
  using missing_attachment_is_KeyError [where w = init_world and g = 0 and a = 0
      and module_path = "PStr ''layer1''" and as = "[PInt 1]" and kws = "[]"]
  by (simp add: init_defs)

section \<open>Grad: add and increment\<close>

text \<open>
  C7. \<^verbatim>\<open>GradProtocol.add\<close> creates a node of target \<^verbatim>\<open>grad\<close> in the graph of the given
  node, whose proxy value is the proxy value of the given node and whose args are exactly
  the given node and the graph's attachment \<^verbatim>\<open>nnsight_backward_idx\<close>, 0 when the key is
  absent. \<^verbatim>\<open>GradProtocol.increment\<close> stores the previous counter (0 when absent) plus one
  under that key.
\<close>

theorem grad_add_and_increment:
  "(case GradProtocol_add a w of
      (b, w') \<Rightarrow>
        target (node_heap w' b) = ''grad'' \<and>
        graph (node_heap w' b) = graph (node_heap w a) \<and>
        proxy_value (node_heap w' b) = proxy_value (node_heap w a) \<and>
        args (node_heap w' b) =
          [PNode a, dict_get (attachments (graph_heap w (graph (node_heap w a))))
                      ''nnsight_backward_idx'' (PInt 0)])
   \<and> (attachments (graph_heap w g) ''nnsight_backward_idx'' = None \<longrightarrow>
        dict_get (attachments (graph_heap w g)) ''nnsight_backward_idx'' (PInt 0) = PInt 0 \<and>
        GradProtocol_increment g w = Inr (set_attachment g ''nnsight_backward_idx'' (PInt 1) w))
   \<and> (attachments (graph_heap w g) ''nnsight_backward_idx'' = Some (PInt n) \<longrightarrow>
        dict_get (attachments (graph_heap w g)) ''nnsight_backward_idx'' (PInt 0) = PInt n \<and>
        GradProtocol_increment g w = Inr (set_attachment g ''nnsight_backward_idx'' (PInt (n + 1)) w))
   \<and> attachments (graph_heap (set_attachment g ''nnsight_backward_idx'' v w) g)
        ''nnsight_backward_idx'' = Some v"
proof -
  obtain b w' where bw: "GradProtocol_add a w = (b, w')" by (cases "GradProtocol_add a w")
  then have c: "graph_create (graph (node_heap w a)) ''grad'' (proxy_value (node_heap w a))
      [PNode a, dict_get (attachments (graph_heap w (graph (node_heap w a))))
                      ''nnsight_backward_idx'' (PInt 0)] [] w = (b, w')"
    by (simp add: GradProtocol_add_def node_create_def GradProtocol_name_def
        GradProtocol_attachment_name_def)
  have add: "target (node_heap w' b) = ''grad'' \<and>
        graph (node_heap w' b) = graph (node_heap w a) \<and>
        proxy_value (node_heap w' b) = proxy_value (node_heap w a) \<and>
        args (node_heap w' b) =
          [PNode a, dict_get (attachments (graph_heap w (graph (node_heap w a))))
                      ''nnsight_backward_idx'' (PInt 0)]"
    using graph_create_new[OF c] by simp
  have inc: "(attachments (graph_heap w g) ''nnsight_backward_idx'' = None \<longrightarrow>
        dict_get (attachments (graph_heap w g)) ''nnsight_backward_idx'' (PInt 0) = PInt 0 \<and>
        GradProtocol_increment g w = Inr (set_attachment g ''nnsight_backward_idx'' (PInt 1) w))
   \<and> (attachments (graph_heap w g) ''nnsight_backward_idx'' = Some (PInt n) \<longrightarrow>
        dict_get (attachments (graph_heap w g)) ''nnsight_backward_idx'' (PInt 0) = PInt n \<and>
        GradProtocol_increment g w = Inr (set_attachment g ''nnsight_backward_idx'' (PInt (n + 1)) w))"
    by (simp add: GradProtocol_increment_def dict_get_def GradProtocol_attachment_name_def)
  have sa: "attachments (graph_heap (set_attachment g ''nnsight_backward_idx'' v w) g)
        ''nnsight_backward_idx'' = Some v"
    by (simp add: set_attachment_def)
  show ?thesis using add inc sa by (simp add: bw)
qed

theorem grad_add_and_increment_witness:
  "GradProtocol_increment 0 init_world
     = Inr (set_attachment 0 ''nnsight_backward_idx'' (PInt 1) init_world) \<and>
   GradProtocol_increment 0 (set_attachment 0 ''nnsight_backward_idx'' (PInt 1) init_world)
     = Inr (set_attachment 0 ''nnsight_backward_idx'' (PInt (1 + 1))
             (set_attachment 0 ''nnsight_backward_idx'' (PInt 1) init_world))"
  using grad_add_and_increment [where a = 0 and w = init_world and g = 0 and n = 1 and v = PNone]
    grad_add_and_increment [where a = 0 and g = 0 and n = 1 and v = PNone
      and w = "set_attachment 0 ''nnsight_backward_idx'' (PInt 1) init_world"]
  by (simp add: init_defs set_attachment_def)


section \<open>Swap\<close>

lemma fold_apply_device:
  assumes "\<And>x dev. x \<in> set xs \<Longrightarrow>
            apply_device x dev = (if tensor_devices x = [] then dev else Some (last (tensor_devices x)))"
  shows "fold (\<lambda>x. apply_device x) xs dev =
           (if concat (map tensor_devices xs) = [] then dev
            else Some (last (concat (map tensor_devices xs))))"
  using assms
proof (induction xs arbitrary: dev)
  case Nil
  then show ?case by simp
next
  case (Cons x xs)
  have hd: "apply_device x dev = (if tensor_devices x = [] then dev else Some (last (tensor_devices x)))"
    using Cons.prems by simp
  have tl: "fold (\<lambda>x. apply_device x) xs (apply_device x dev) =
           (if concat (map tensor_devices xs) = [] then apply_device x dev
            else Some (last (concat (map tensor_devices xs))))"
    using Cons.IH Cons.prems by simp
  show ?case
  proof (cases "concat (map tensor_devices xs) = []")
    case True
    then show ?thesis using hd tl by auto
  next
    case False
    then show ?thesis using hd tl by (auto simp: last_append)
  qed
qed

lemma apply_device_last:
  "apply_device v dev = (if tensor_devices v = [] then dev else Some (last (tensor_devices v)))"
proof (induction v dev rule: apply_device.induct)
  case (2 xs dev)
  show ?case using fold_apply_device[of xs dev] 2 by simp
next
  case (3 xs dev)
  show ?case using fold_apply_device[of xs dev] 3 by simp
qed simp_all

lemma tensor_devices_to:
  "set (tensor_devices (util_apply v (tensor_to d) is_Tensor)) \<subseteq> {d}"
  by (induction v "tensor_to d" is_Tensor rule: util_apply.induct) auto

lemma get_swap_inactive:
  "dict_get (attachments (graph_heap w g)) ''nnsight_swap'' PNone = PNone \<Longrightarrow>
   SwapProtocol_get_swap g v w = Inr (v, w)"
  by (simp add: SwapProtocol_get_swap_def SwapProtocol_attachment_name_def)

lemma get_swap_active:
  assumes "attachments (graph_heap w g) ''nnsight_swap'' = Some (PNode s)"
    and "args (node_heap w s) = x0 # r # xs"
  shows "SwapProtocol_get_swap g v w =
           Inr (relocate (apply_device v None) (util_apply r (value_of w) is_Node),
                set_attachment g ''nnsight_swap'' PNone (set_value s (PBool True) w))"
  using assms
  by (simp add: SwapProtocol_get_swap_def SwapProtocol_attachment_name_def dict_get_def
      relocate_def Let_def)

lemma swap_execute_eq:
  "SwapProtocol_execute n w =
     (case dict_get (attachments (graph_heap w (graph (node_heap w n)))) ''nnsight_swap'' PNone of
        PNone \<Rightarrow> Inr (set_attachment (graph (node_heap w n)) ''nnsight_swap'' (PNode n) w)
      | PNode s \<Rightarrow> Inr (set_attachment (graph (node_heap w n)) ''nnsight_swap'' (PNode n)
                         (set_value s (PBool False) w))
      | x \<Rightarrow> Inl (AttributeError ''set_value''))"
  by (simp add: SwapProtocol_execute_def SwapProtocol_attachment_name_def Let_def
      split: pyval.splits)

lemma store_simps:
  "node_heap (set_attachment g k x w) = node_heap w"
  "graph_heap (set_value a v w) = graph_heap w"
  "attachments (graph_heap (set_attachment g k x w) g) k = Some x"
  "nvalue (node_heap (set_value a v w) a) = v"
  "b \<noteq> a \<Longrightarrow> node_heap (set_value a v w) b = node_heap w b"
  "args (node_heap (set_value a v w) b) = args (node_heap w b)"
  "graph (node_heap (set_value a v w) b) = graph (node_heap w b)"
  "listeners (node_heap (set_value a v w) b) = listeners (node_heap w b)"
  "hook_heap (set_value a v w) = hook_heap w"
  "hook_heap (set_attachment g k x w) = hook_heap w"
  by (simp_all add: set_attachment_def set_value_def)


lemma util_apply_real_value:
  "util_apply x (value_of w) is_Node = real_value w x"
  by (induction w x rule: real_value.induct) simp_all

lemma util_apply_placed_on:
  "util_apply x (tensor_to d) is_Tensor = placed_on d x"
  by (induction d x rule: placed_on.induct) simp_all

lemma relocate_real_value:
  "relocate (apply_device v None) (util_apply r (value_of w) is_Node) =
     (if tensor_devices v = [] then real_value w r
      else placed_on (last (tensor_devices v)) (real_value w r))"
  by (simp add: relocate_def apply_device_last util_apply_real_value util_apply_placed_on)

lemma nested_swap_facts:
  "attachments (graph_heap nested_swap 0) ''nnsight_swap'' = Some (PNode 2)"
  "args (node_heap nested_swap 2) = PNode 1 # PList [PNode 0, PTensor ''cpu'' 3] # []"
  "nvalue (node_heap nested_swap 0) = PInt 5"
  by (simp_all add: nested_swap_def SwapProtocol_execute_def SwapProtocol_attachment_name_def
      example_defs init_defs)

text \<open>
  C2. \<^verbatim>\<open>get_swap\<close> with no active swap (the key \<^verbatim>\<open>nnsight_swap\<close> absent or holding
  \<^verbatim>\<open>None\<close>) returns its input and changes nothing. With an active swap node \<open>s\<close> whose
  args are \<open>[x0, r, ...]\<close> it returns the real value of the replacement \<open>r\<close> (every node
  reference in it, inside lists and tuples too, replaced by the value of that node), as
  it is when the input holds no tensor and with every tensor placed on the device of the
  input's last tensor otherwise; it sets the value of \<open>s\<close> to \<^verbatim>\<open>True\<close> and
  the attachment to \<^verbatim>\<open>None\<close>. From then on every consultation returns its input
  unchanged, until the \<^verbatim>\<open>execute\<close> of a Swap node of the graph installs that node as the
  active swap again.
\<close>

theorem get_swap_one_shot:
  "(dict_get (attachments (graph_heap w g)) ''nnsight_swap'' PNone = PNone \<longrightarrow>
      SwapProtocol_get_swap g v w = Inr (v, w))
   \<and> (attachments (graph_heap w g) ''nnsight_swap'' = Some (PNode s) \<and>
        args (node_heap w s) = x0 # r # xs \<longrightarrow>
      (\<exists>v' w'. SwapProtocol_get_swap g v w = Inr (v', w') \<and>
         v' = (if tensor_devices v = [] then real_value w r
               else placed_on (last (tensor_devices v)) (real_value w r)) \<and>
         (tensor_devices v \<noteq> [] \<longrightarrow> set (tensor_devices v') \<subseteq> {last (tensor_devices v)}) \<and>
         nvalue (node_heap w' s) = PBool True \<and>
         attachments (graph_heap w' g) ''nnsight_swap'' = Some PNone \<and>
         (\<forall>u. SwapProtocol_get_swap g u w' = Inr (u, w')) \<and>
         (\<forall>n. graph (node_heap w' n) = g \<longrightarrow>
            (\<exists>w''. SwapProtocol_execute n w' = Inr w'' \<and>
               attachments (graph_heap w'' g) ''nnsight_swap'' = Some (PNode n)))))"
proof (intro conjI impI)
  assume "dict_get (attachments (graph_heap w g)) ''nnsight_swap'' PNone = PNone"
  then show "SwapProtocol_get_swap g v w = Inr (v, w)" by (rule get_swap_inactive)
next
  assume a: "attachments (graph_heap w g) ''nnsight_swap'' = Some (PNode s) \<and>
        args (node_heap w s) = x0 # r # xs"
  define v' where "v' = relocate (apply_device v None) (util_apply r (value_of w) is_Node)"
  define w' where "w' = set_attachment g ''nnsight_swap'' PNone (set_value s (PBool True) w)"
  have run: "SwapProtocol_get_swap g v w = Inr (v', w')"
    using a get_swap_active[of w g s x0 r xs v] by (simp add: v'_def w'_def)
  have real: "v' = (if tensor_devices v = [] then real_value w r
               else placed_on (last (tensor_devices v)) (real_value w r))"
    by (simp only: v'_def relocate_real_value)
  have some: "tensor_devices v \<noteq> [] \<longrightarrow> set (tensor_devices v') \<subseteq> {last (tensor_devices v)}"
    using tensor_devices_to by (simp add: v'_def relocate_def apply_device_last)
  have val: "nvalue (node_heap w' s) = PBool True"
    by (simp add: w'_def store_simps)
  have att: "attachments (graph_heap w' g) ''nnsight_swap'' = Some PNone"
    by (simp add: w'_def store_simps)
  have later: "\<forall>u. SwapProtocol_get_swap g u w' = Inr (u, w')"
    using att by (simp add: get_swap_inactive dict_get_def)
  have again: "\<forall>n. graph (node_heap w' n) = g \<longrightarrow>
            (\<exists>w''. SwapProtocol_execute n w' = Inr w'' \<and>
               attachments (graph_heap w'' g) ''nnsight_swap'' = Some (PNode n))"
    using att by (simp add: swap_execute_eq dict_get_def store_simps)
  show "\<exists>v' w'. SwapProtocol_get_swap g v w = Inr (v', w') \<and>
         v' = (if tensor_devices v = [] then real_value w r
               else placed_on (last (tensor_devices v)) (real_value w r)) \<and>
         (tensor_devices v \<noteq> [] \<longrightarrow> set (tensor_devices v') \<subseteq> {last (tensor_devices v)}) \<and>
         nvalue (node_heap w' s) = PBool True \<and>
         attachments (graph_heap w' g) ''nnsight_swap'' = Some PNone \<and>
         (\<forall>u. SwapProtocol_get_swap g u w' = Inr (u, w')) \<and>
         (\<forall>n. graph (node_heap w' n) = g \<longrightarrow>
            (\<exists>w''. SwapProtocol_execute n w' = Inr w'' \<and>
               attachments (graph_heap w'' g) ''nnsight_swap'' = Some (PNode n)))"
    using run real some val att later again by blast
qed

theorem get_swap_one_shot_witness:
  "SwapProtocol_get_swap 0 (PInt 9) init_world = Inr (PInt 9, init_world) \<and>
   (\<exists>w'. SwapProtocol_get_swap 0 (PTensor ''cuda'' 1)
            (set_attachment 0 ''nnsight_swap'' (PNode 3) two_swaps) = Inr (PInt 7, w') \<and>
         nvalue (node_heap w' 3) = PBool True \<and>
         SwapProtocol_get_swap 0 (PTensor ''cuda'' 1) w' = Inr (PTensor ''cuda'' 1, w')) \<and>
   (\<exists>w'. SwapProtocol_get_swap 0 (PTensor ''cuda'' 1) nested_swap
            = Inr (PList [PInt 5, PTensor ''cuda'' 3], w') \<and>
         nvalue (node_heap w' 2) = PBool True \<and>
         SwapProtocol_get_swap 0 (PNode 0) w' = Inr (PNode 0, w')) \<and>
   (\<exists>w'. SwapProtocol_get_swap 0 (PInt 9) nested_swap
            = Inr (PList [PInt 5, PTensor ''cpu'' 3], w'))"
proof -
  have args3: "args (node_heap (set_attachment 0 ''nnsight_swap'' (PNode 3) two_swaps) 3)
                 = PNode 1 # PInt 7 # []"
    by (simp add: two_swaps_def graph_create_def SwapProtocol_add_def node_create_def Let_def
        init_defs set_attachment_def SwapProtocol_name_def)
  have att: "attachments (graph_heap (set_attachment 0 ''nnsight_swap'' (PNode 3) two_swaps) 0)
               ''nnsight_swap'' = Some (PNode 3)"
    by (simp add: store_simps)
  have inactive: "dict_get (attachments (graph_heap init_world 0)) ''nnsight_swap'' PNone = PNone"
    by (simp add: init_defs dict_get_def)
  have first: "SwapProtocol_get_swap 0 (PInt 9) init_world = Inr (PInt 9, init_world)"
    using get_swap_one_shot [where w = init_world and g = 0 and v = "PInt 9"] inactive
    by simp
  have second: "\<exists>w'. SwapProtocol_get_swap 0 (PTensor ''cuda'' 1)
            (set_attachment 0 ''nnsight_swap'' (PNode 3) two_swaps) = Inr (PInt 7, w') \<and>
         nvalue (node_heap w' 3) = PBool True \<and>
         SwapProtocol_get_swap 0 (PTensor ''cuda'' 1) w' = Inr (PTensor ''cuda'' 1, w')"
    using get_swap_one_shot [where w = "set_attachment 0 ''nnsight_swap'' (PNode 3) two_swaps"
        and g = 0 and s = 3 and v = "PTensor ''cuda'' 1" and ?x0.0 = "PNode 1" and r = "PInt 7"
        and xs = "[]"] args3 att
    by auto
  have third: "\<exists>w'. SwapProtocol_get_swap 0 (PTensor ''cuda'' 1) nested_swap
            = Inr (PList [PInt 5, PTensor ''cuda'' 3], w') \<and>
         nvalue (node_heap w' 2) = PBool True \<and>
         SwapProtocol_get_swap 0 (PNode 0) w' = Inr (PNode 0, w')"
    using get_swap_one_shot [where w = nested_swap and g = 0 and s = 2
        and v = "PTensor ''cuda'' 1" and ?x0.0 = "PNode 1"
        and r = "PList [PNode 0, PTensor ''cpu'' 3]" and xs = "[]"] nested_swap_facts
    by auto
  have fourth: "\<exists>w'. SwapProtocol_get_swap 0 (PInt 9) nested_swap
            = Inr (PList [PInt 5, PTensor ''cpu'' 3], w')"
    using get_swap_one_shot [where w = nested_swap and g = 0 and s = 2
        and v = "PInt 9" and ?x0.0 = "PNode 1"
        and r = "PList [PNode 0, PTensor ''cpu'' 3]" and xs = "[]"] nested_swap_facts
    by auto
  show ?thesis using first second third fourth by simp
qed




section \<open>Grad: the hook\<close>

lemma get_swap_eq:
  "SwapProtocol_get_swap g v w =
     (case dict_get (attachments (graph_heap w g)) ''nnsight_swap'' PNone of
        PNone \<Rightarrow> Inr (v, w)
      | PNode s \<Rightarrow>
          (case args (node_heap w s) of
             x0 # r # xs \<Rightarrow>
               Inr (relocate (apply_device v None) (util_apply r (value_of w) is_Node),
                    set_attachment g ''nnsight_swap'' PNone (set_value s (PBool True) w))
           | _ \<Rightarrow> Inl IndexError)
      | x \<Rightarrow> Inl (AttributeError ''args''))"
  by (simp add: SwapProtocol_get_swap_def SwapProtocol_attachment_name_def Let_def relocate_def
      split: pyval.splits list.splits)

lemma value_of_cong:
  "node_heap wa = node_heap w \<Longrightarrow> value_of wa = value_of w"
proof
  fix x assume "node_heap wa = node_heap w"
  then show "value_of wa x = value_of w x" by (cases x) simp_all
qed

lemma get_swap_transfer:
  assumes "SwapProtocol_get_swap g v w = Inr (r, w')"
    and "node_heap wa = node_heap w" and "graph_heap wa = graph_heap w"
  shows "\<exists>wa'. SwapProtocol_get_swap g v wa = Inr (r, wa') \<and> node_heap wa' = node_heap w' \<and>
           graph_heap wa' = graph_heap w' \<and> hook_heap wa' = hook_heap wa"
  using assms value_of_cong[OF assms(2)]
  by (auto simp: get_swap_eq set_attachment_def set_value_def split: pyval.splits list.splits)

lemma get_swap_ready:
  assumes "swap_ready g w"
  shows "\<exists>r w'. SwapProtocol_get_swap g v w = Inr (r, w')"
  using assms
  by (auto simp: get_swap_eq swap_ready_def split: pyval.splits list.splits)

lemma run_append:
  "run f h (vs @ us) w =
     (case run f h vs w of
        Inl e \<Rightarrow> Inl e
      | Inr (rs, w1) \<Rightarrow>
          (case run f h us w1 of Inl e \<Rightarrow> Inl e | Inr (rs', w2) \<Rightarrow> Inr (rs @ rs', w2)))"
  by (induction vs arbitrary: w) (auto split: sum.splits prod.splits)

lemma grad_count:
  assumes "py_int (backward_idx (hook_heap w h)) = Some n" and "n \<noteq> 0"
  shows "grad h v w = Inr (PNone, w\<lparr>hook_heap := (hook_heap w)
           (h := (hook_heap w h)\<lparr>backward_idx := PInt (n - 1)\<rparr>)\<rparr>)"
  using assms by (simp add: grad_def Let_def)

lemma grad_capture:
  assumes "py_int (backward_idx (hook_heap w h)) = Some 0"
  shows "grad h v w =
     (case (if attached (hook_node (hook_heap w h)) w
            then SwapProtocol_get_swap (graph (node_heap w (hook_node (hook_heap w h)))) v
                   (set_value (hook_node (hook_heap w h)) v w)
            else Inr (v, set_value (hook_node (hook_heap w h)) v w)) of
        Inl e \<Rightarrow> Inl e
      | Inr (v', w2) \<Rightarrow>
          Inr (v', w2\<lparr>hook_heap := (hook_heap w2)
                 (h := (hook_heap w2 h)\<lparr>backward_idx := PInt (- 1), registered := False\<rparr>)\<rparr>))"
  using assms by (simp add: grad_def Let_def attached_def store_simps)

lemma run_fire_removed:
  "\<not> registered (hook_heap w h) \<Longrightarrow> run fire h us w = Inr (replicate (length us) PNone, w)"
  by (induction us) (simp_all add: fire_def)

lemma run_fire_counting:
  assumes "registered (hook_heap w h)" and "backward_idx (hook_heap w h) = PInt n"
    and "int (length vs) \<le> n"
  shows "\<exists>w1. run fire h vs w = Inr (replicate (length vs) PNone, w1) \<and>
           node_heap w1 = node_heap w \<and> graph_heap w1 = graph_heap w \<and>
           hook_node (hook_heap w1 h) = hook_node (hook_heap w h) \<and>
           backward_idx (hook_heap w1 h) = PInt (n - int (length vs)) \<and>
           registered (hook_heap w1 h)"
  using assms
proof (induction vs arbitrary: w n)
  case Nil
  then show ?case by simp
next
  case (Cons v vs)
  define w' where "w' = w\<lparr>hook_heap := (hook_heap w)
           (h := (hook_heap w h)\<lparr>backward_idx := PInt (n - 1)\<rparr>)\<rparr>"
  have n: "n \<noteq> 0" using Cons.prems by auto
  have step: "fire h v w = Inr (PNone, w')"
    using Cons.prems n grad_count[of w h n v] by (simp add: fire_def w'_def)
  have "registered (hook_heap w' h)" "backward_idx (hook_heap w' h) = PInt (n - 1)"
    "int (length vs) \<le> n - 1"
    using Cons.prems by (simp_all add: w'_def)
  from Cons.IH[OF this] obtain w1 where
    "run fire h vs w' = Inr (replicate (length vs) PNone, w1)"
    "node_heap w1 = node_heap w'" "graph_heap w1 = graph_heap w'"
    "hook_node (hook_heap w1 h) = hook_node (hook_heap w' h)"
    "backward_idx (hook_heap w1 h) = PInt (n - 1 - int (length vs))"
    "registered (hook_heap w1 h)" by blast
  then show ?case
    by (simp add: step w'_def algebra_simps)
qed

lemma run_grad_negative:
  assumes "backward_idx (hook_heap w h) = PInt n" and "n < 0"
  shows "\<exists>w1. run grad h vs w = Inr (replicate (length vs) PNone, w1) \<and>
           node_heap w1 = node_heap w \<and> graph_heap w1 = graph_heap w \<and>
           backward_idx (hook_heap w1 h) = PInt (n - int (length vs))"
  using assms
proof (induction vs arbitrary: w n)
  case Nil
  then show ?case by simp
next
  case (Cons v vs)
  define w' where "w' = w\<lparr>hook_heap := (hook_heap w)
           (h := (hook_heap w h)\<lparr>backward_idx := PInt (n - 1)\<rparr>)\<rparr>"
  have step: "grad h v w = Inr (PNone, w')"
    using Cons.prems grad_count[of w h n v] by (simp add: w'_def)
  have "backward_idx (hook_heap w' h) = PInt (n - 1)" "n - 1 < 0"
    using Cons.prems by (simp_all add: w'_def)
  from Cons.IH[OF this] obtain w1 where
    "run grad h vs w' = Inr (replicate (length vs) PNone, w1)"
    "node_heap w1 = node_heap w'" "graph_heap w1 = graph_heap w'"
    "backward_idx (hook_heap w1 h) = PInt (n - 1 - int (length vs))" by blast
  then show ?case
    by (simp add: step w'_def algebra_simps)
qed

lemma grad_execute_registers:
  assumes "prepare_inputs a w = (PTensor d t # idx # rest, kws)"
  shows "\<exists>w0. GradProtocol_execute a w = Inr (next_hook w, w0) \<and>
           node_heap w0 = node_heap w \<and> graph_heap w0 = graph_heap w \<and>
           hook_heap w0 (next_hook w)
             = \<lparr>hook_node = a, backward_idx = idx, hook_tensor = t, registered = True\<rparr>"
  using assms by (simp add: GradProtocol_execute_def Let_def)


lemma capture_detached:
  assumes "registered (hook_heap w h)" and "backward_idx (hook_heap w h) = PInt 0"
    and "\<not> attached (hook_node (hook_heap w h)) w"
  shows "\<exists>w2. fire h v w = Inr (v, w2) \<and>
           node_heap w2 = node_heap (set_value (hook_node (hook_heap w h)) v w) \<and>
           graph_heap w2 = graph_heap w \<and>
           backward_idx (hook_heap w2 h) = PInt (- 1) \<and>
           \<not> registered (hook_heap w2 h)"
  using assms grad_capture[of w h v]
  by (simp add: fire_def store_simps)

lemma capture_attached:
  assumes "registered (hook_heap w h)" and "backward_idx (hook_heap w h) = PInt 0"
    and "attached (hook_node (hook_heap w h)) w"
    and "SwapProtocol_get_swap (graph (node_heap w (hook_node (hook_heap w h)))) v
           (set_value (hook_node (hook_heap w h)) v w) = Inr (r, w')"
  shows "\<exists>w2. fire h v w = Inr (r, w2) \<and>
           node_heap w2 = node_heap w' \<and> graph_heap w2 = graph_heap w' \<and>
           backward_idx (hook_heap w2 h) = PInt (- 1) \<and>
           \<not> registered (hook_heap w2 h)"
  using assms grad_capture[of w h v]
  by (simp add: fire_def)

lemma grad_example_facts:
  "prepare_inputs 1 grad_example = (PTensor ''cpu'' 7 # PInt (int 1) # [], [])"
  "\<not> attached 1 grad_example"
  by (simp_all add: grad_example_def example_defs init_defs)

lemma grad_swap_example_facts:
  "prepare_inputs 1 grad_swap_example = (PTensor ''cpu'' 7 # PInt (int 1) # [], [])"
  "attached 1 grad_swap_example"
  "graph (node_heap grad_swap_example 1) = 0"
  "swap_ready 0 grad_swap_example"
  "\<exists>w'. SwapProtocol_get_swap 0 (PInt 20) (set_value 1 (PInt 20) grad_swap_example)
          = Inr (PInt 99, w')"
  by (simp_all add: grad_swap_example_def grad_example_def example_defs init_defs
      swap_ready_def get_swap_eq relocate_def)

lemma capture_example_grad:
  "\<exists>w1. grad 0 (PInt 20) capture_example = Inr (PInt 20, w1) \<and>
         nvalue (node_heap w1 1) = PInt 20"
  "py_int (backward_idx (hook_heap capture_example 0)) = Some 0"
  by (simp_all add: capture_example_def grad_def example_defs init_defs)

text \<open>
  C1. Let the \<^verbatim>\<open>execute\<close> of a Grad node \<open>a\<close> resolve its inputs to a tensor and the
  counter \<open>i\<close>. Then it registers a hook with counter \<open>i\<close> and changes no node or graph.
  Any sequence of at most \<open>i\<close> invocations returns \<^verbatim>\<open>None\<close> each time, decrements the
  counter once per invocation and leaves every node and graph as before, so the node's
  value stays unset. The invocation number \<open>i + 1\<close> sets the value of \<open>a\<close> to the incoming
  gradient; when \<open>a\<close> has no listener it returns the gradient itself and leaves the graphs
  (and so the swap attachment) untouched; when \<open>a\<close> has a listener it returns what
  \<^verbatim>\<open>get_swap\<close> returns on the store in which the value has been set. In both cases the hook
  is unregistered, so every later occurrence in the traversal returns \<^verbatim>\<open>None\<close> and
  changes nothing: the capture happens at most once.
\<close>

theorem grad_hook_counts_then_captures_once:
  assumes "prepare_inputs a w = (PTensor d t # PInt (int i) # rest, kws)"
  shows "\<exists>h w0. GradProtocol_execute a w = Inr (h, w0) \<and>
     node_heap w0 = node_heap w \<and> graph_heap w0 = graph_heap w \<and>
     hook_node (hook_heap w0 h) = a \<and> backward_idx (hook_heap w0 h) = PInt (int i) \<and>
     registered (hook_heap w0 h) \<and>
     (\<forall>vs. length vs \<le> i \<longrightarrow>
        (\<exists>w1. run fire h vs w0 = Inr (replicate (length vs) PNone, w1) \<and>
           node_heap w1 = node_heap w \<and> graph_heap w1 = graph_heap w \<and>
           backward_idx (hook_heap w1 h) = PInt (int i - int (length vs)) \<and>
           registered (hook_heap w1 h))) \<and>
     (\<forall>vs v. length vs = i \<and> \<not> attached a w \<longrightarrow>
        (\<exists>w2. run fire h (vs @ [v]) w0 = Inr (replicate i PNone @ [v], w2) \<and>
           node_heap w2 = node_heap (set_value a v w) \<and> graph_heap w2 = graph_heap w \<and>
           nvalue (node_heap w2 a) = v \<and>
           \<not> registered (hook_heap w2 h) \<and>
           (\<forall>us. run fire h us w2 = Inr (replicate (length us) PNone, w2)))) \<and>
     (\<forall>vs v. length vs = i \<and> attached a w \<and> swap_ready (graph (node_heap w a)) w \<longrightarrow>
        (\<exists>r w' w2.
           SwapProtocol_get_swap (graph (node_heap w a)) v (set_value a v w) = Inr (r, w') \<and>
           run fire h (vs @ [v]) w0 = Inr (replicate i PNone @ [r], w2) \<and>
           node_heap w2 = node_heap w' \<and> graph_heap w2 = graph_heap w' \<and>
           \<not> registered (hook_heap w2 h) \<and>
           (\<forall>us. run fire h us w2 = Inr (replicate (length us) PNone, w2))))"
proof -
  define h where "h = next_hook w"
  from grad_execute_registers[OF assms] obtain w0 where
    ex: "GradProtocol_execute a w = Inr (h, w0)" and
    nh: "node_heap w0 = node_heap w" and gh: "graph_heap w0 = graph_heap w" and
    hk: "hook_heap w0 h
           = \<lparr>hook_node = a, backward_idx = PInt (int i), hook_tensor = t, registered = True\<rparr>"
    unfolding h_def by blast
  have reg: "registered (hook_heap w0 h)" and idx: "backward_idx (hook_heap w0 h) = PInt (int i)"
    and hn: "hook_node (hook_heap w0 h) = a"
    by (simp_all add: hk)
  have counting: "\<exists>w1. run fire h vs w0 = Inr (replicate (length vs) PNone, w1) \<and>
           node_heap w1 = node_heap w \<and> graph_heap w1 = graph_heap w \<and>
           hook_node (hook_heap w1 h) = a \<and>
           backward_idx (hook_heap w1 h) = PInt (int i - int (length vs)) \<and>
           registered (hook_heap w1 h)" if "length vs \<le> i" for vs
    using run_fire_counting[OF reg idx, of vs] that by (simp add: nh gh hn)
  have detached: "\<exists>w2. run fire h (vs @ [v]) w0 = Inr (replicate i PNone @ [v], w2) \<and>
           node_heap w2 = node_heap (set_value a v w) \<and> graph_heap w2 = graph_heap w \<and>
           nvalue (node_heap w2 a) = v \<and>
           \<not> registered (hook_heap w2 h) \<and>
           (\<forall>us. run fire h us w2 = Inr (replicate (length us) PNone, w2))"
    if len: "length vs = i" and na: "\<not> attached a w" for vs v
  proof -
    from counting[of vs] len obtain w1 where
      r1: "run fire h vs w0 = Inr (replicate i PNone, w1)" and
      n1: "node_heap w1 = node_heap w" and g1: "graph_heap w1 = graph_heap w" and
      a1: "hook_node (hook_heap w1 h) = a" and
      i1: "backward_idx (hook_heap w1 h) = PInt 0" and reg1: "registered (hook_heap w1 h)"
      by auto
    have "\<not> attached (hook_node (hook_heap w1 h)) w1"
      using na by (simp add: attached_def a1 n1)
    from capture_detached[OF reg1 i1 this, of v] obtain w2 where
      f: "fire h v w1 = Inr (v, w2)" and
      n2: "node_heap w2 = node_heap (set_value a v w1)" and g2: "graph_heap w2 = graph_heap w1"
      and u2: "\<not> registered (hook_heap w2 h)"
      by (auto simp: a1)
    have n2': "node_heap w2 = node_heap (set_value a v w)"
      using n2 n1 by (simp add: set_value_def)
    have "run fire h (vs @ [v]) w0 = Inr (replicate i PNone @ [v], w2)"
      by (simp add: run_append r1 f)
    then show ?thesis
      using n2' g2 g1 u2 run_fire_removed[OF u2] by (simp add: store_simps)
  qed
  have attached: "\<exists>r w' w2.
           SwapProtocol_get_swap (graph (node_heap w a)) v (set_value a v w) = Inr (r, w') \<and>
           run fire h (vs @ [v]) w0 = Inr (replicate i PNone @ [r], w2) \<and>
           node_heap w2 = node_heap w' \<and> graph_heap w2 = graph_heap w' \<and>
           \<not> registered (hook_heap w2 h) \<and>
           (\<forall>us. run fire h us w2 = Inr (replicate (length us) PNone, w2))"
    if len: "length vs = i" and at: "attached a w"
      and rdy: "swap_ready (graph (node_heap w a)) w" for vs v
  proof -
    from counting[of vs] len obtain w1 where
      r1: "run fire h vs w0 = Inr (replicate i PNone, w1)" and
      n1: "node_heap w1 = node_heap w" and g1: "graph_heap w1 = graph_heap w" and
      a1: "hook_node (hook_heap w1 h) = a" and
      i1: "backward_idx (hook_heap w1 h) = PInt 0" and reg1: "registered (hook_heap w1 h)"
      by auto
    have "swap_ready (graph (node_heap w a)) (set_value a v w)"
      using rdy by (simp add: swap_ready_def store_simps cong: pyval.case_cong)
    from get_swap_ready[OF this, of v] obtain r w' where
      gs: "SwapProtocol_get_swap (graph (node_heap w a)) v (set_value a v w) = Inr (r, w')"
      by blast
    have "node_heap (set_value a v w1) = node_heap (set_value a v w)"
      "graph_heap (set_value a v w1) = graph_heap (set_value a v w)"
      using n1 g1 by (simp_all add: set_value_def)
    from get_swap_transfer[OF gs this] obtain w1' where
      gs1: "SwapProtocol_get_swap (graph (node_heap w a)) v (set_value a v w1) = Inr (r, w1')"
      and n1': "node_heap w1' = node_heap w'" and g1': "graph_heap w1' = graph_heap w'"
      by blast
    have at1: "attached (hook_node (hook_heap w1 h)) w1"
      using at by (simp add: attached_def a1 n1)
    have "SwapProtocol_get_swap (graph (node_heap w1 (hook_node (hook_heap w1 h)))) v
           (set_value (hook_node (hook_heap w1 h)) v w1) = Inr (r, w1')"
      using gs1 by (simp add: a1 n1)
    from capture_attached[OF reg1 i1 at1 this] obtain w2 where
      f: "fire h v w1 = Inr (r, w2)" and
      n2: "node_heap w2 = node_heap w1'" and g2: "graph_heap w2 = graph_heap w1'"
      and u2: "\<not> registered (hook_heap w2 h)"
      by blast
    have "run fire h (vs @ [v]) w0 = Inr (replicate i PNone @ [r], w2)"
      by (simp add: run_append r1 f)
    then show ?thesis
      using gs n2 g2 n1' g1' u2 run_fire_removed[OF u2] by auto
  qed
  show ?thesis
    using ex nh gh hn idx reg counting detached attached by blast
qed


theorem grad_hook_counts_then_captures_once_witness:
  "(\<exists>h w0 w2. GradProtocol_execute 1 grad_example = Inr (h, w0) \<and>
      run fire h ([PInt 10] @ [PInt 20]) w0 = Inr ([PNone, PInt 20], w2) \<and>
      nvalue (node_heap w2 1) = PInt 20 \<and>
      run fire h [PInt 30] w2 = Inr ([PNone], w2)) \<and>
   (\<exists>h w0 w2. GradProtocol_execute 1 grad_swap_example = Inr (h, w0) \<and>
      run fire h ([PInt 10] @ [PInt 20]) w0 = Inr ([PNone, PInt 99], w2) \<and>
      run fire h [PInt 30] w2 = Inr ([PNone], w2))"
proof -
  from grad_hook_counts_then_captures_once [OF grad_example_facts(1)] obtain h w0 where
    ex: "GradProtocol_execute 1 grad_example = Inr (h, w0)" and
    det: "\<forall>vs v. length vs = 1 \<and> \<not> attached 1 grad_example \<longrightarrow>
        (\<exists>w2. run fire h (vs @ [v]) w0 = Inr (replicate 1 PNone @ [v], w2) \<and>
           node_heap w2 = node_heap (set_value 1 v grad_example) \<and>
           graph_heap w2 = graph_heap grad_example \<and>
           nvalue (node_heap w2 1) = v \<and>
           \<not> registered (hook_heap w2 h) \<and>
           (\<forall>us. run fire h us w2 = Inr (replicate (length us) PNone, w2)))"
    by blast
  from det[rule_format, of "[PInt 10]" "PInt 20"] grad_example_facts(2) obtain w2 where
    r2: "run fire h ([PInt 10] @ [PInt 20]) w0 = Inr (replicate 1 PNone @ [PInt 20], w2)" and
    v2: "nvalue (node_heap w2 1) = PInt 20" and
    l2: "\<forall>us. run fire h us w2 = Inr (replicate (length us) PNone, w2)"
    by auto
  have one: "run fire h ([PInt 10] @ [PInt 20]) w0 = Inr ([PNone, PInt 20], w2) \<and>
      nvalue (node_heap w2 1) = PInt 20 \<and> run fire h [PInt 30] w2 = Inr ([PNone], w2)"
    using r2 v2 l2[rule_format, of "[PInt 30]"] by simp
  from grad_hook_counts_then_captures_once [OF grad_swap_example_facts(1)] obtain h' w0' where
    ex': "GradProtocol_execute 1 grad_swap_example = Inr (h', w0')" and
    att: "\<forall>vs v. length vs = 1 \<and> attached 1 grad_swap_example \<and>
          swap_ready (graph (node_heap grad_swap_example 1)) grad_swap_example \<longrightarrow>
        (\<exists>r w' w2.
           SwapProtocol_get_swap (graph (node_heap grad_swap_example 1)) v
             (set_value 1 v grad_swap_example) = Inr (r, w') \<and>
           run fire h' (vs @ [v]) w0' = Inr (replicate 1 PNone @ [r], w2) \<and>
           node_heap w2 = node_heap w' \<and> graph_heap w2 = graph_heap w' \<and>
           \<not> registered (hook_heap w2 h') \<and>
           (\<forall>us. run fire h' us w2 = Inr (replicate (length us) PNone, w2)))"
    by blast
  from att[rule_format, of "[PInt 10]" "PInt 20"] grad_swap_example_facts(2,3,4)
  obtain r w' w2' where
    gs: "SwapProtocol_get_swap 0 (PInt 20) (set_value 1 (PInt 20) grad_swap_example) = Inr (r, w')"
    and r2': "run fire h' ([PInt 10] @ [PInt 20]) w0' = Inr (replicate 1 PNone @ [r], w2')"
    and l2': "\<forall>us. run fire h' us w2' = Inr (replicate (length us) PNone, w2')"
    by auto
  have r: "r = PInt 99"
    using gs grad_swap_example_facts(5) by auto
  have two: "run fire h' ([PInt 10] @ [PInt 20]) w0' = Inr ([PNone, PInt 99], w2') \<and>
      run fire h' [PInt 30] w2' = Inr ([PNone], w2')"
    using r2' r l2'[rule_format, of "[PInt 30]"] by simp
  show ?thesis using ex one ex' two by blast
qed

text \<open>
  C10. When a call of the closure \<^verbatim>\<open>grad\<close> finds the counter at 0 and returns (the
  capture branch), the counter is -1 afterwards. Whatever sequence of further calls of
  the same closure follows, each returns \<^verbatim>\<open>None\<close>, each decrements the counter, which
  therefore is never 0 again, and no node or graph changes: the node's value is not set a
  second time.
\<close>

theorem grad_after_capture_is_harmless:
  assumes "py_int (backward_idx (hook_heap w h)) = Some 0" and "grad h v w = Inr (r, w1)"
  shows "backward_idx (hook_heap w1 h) = PInt (- 1) \<and>
     (\<forall>vs. \<exists>w2. run grad h vs w1 = Inr (replicate (length vs) PNone, w2) \<and>
        node_heap w2 = node_heap w1 \<and> graph_heap w2 = graph_heap w1 \<and>
        backward_idx (hook_heap w2 h) = PInt (- 1 - int (length vs)) \<and>
        py_int (backward_idx (hook_heap w2 h)) \<noteq> Some 0)"
proof -
  have c: "backward_idx (hook_heap w1 h) = PInt (- 1)"
    using assms(2) grad_capture[OF assms(1), of v]
    by (auto split: sum.splits prod.splits if_splits)
  have "\<exists>w2. run grad h vs w1 = Inr (replicate (length vs) PNone, w2) \<and>
        node_heap w2 = node_heap w1 \<and> graph_heap w2 = graph_heap w1 \<and>
        backward_idx (hook_heap w2 h) = PInt (- 1 - int (length vs)) \<and>
        py_int (backward_idx (hook_heap w2 h)) \<noteq> Some 0" for vs
    using run_grad_negative[OF c, of vs] by auto
  then show ?thesis using c by blast
qed

theorem grad_after_capture_is_harmless_witness:
  "\<exists>w1 w2. grad 0 (PInt 20) capture_example = Inr (PInt 20, w1) \<and>
     backward_idx (hook_heap w1 0) = PInt (- 1) \<and>
     run grad 0 [PInt 30, PInt 40] w1 = Inr ([PNone, PNone], w2) \<and>
     nvalue (node_heap w2 1) = PInt 20 \<and>
     backward_idx (hook_heap w2 0) = PInt (- 3)"
proof -
  from capture_example_grad(1) obtain w1 where
    g: "grad 0 (PInt 20) capture_example = Inr (PInt 20, w1)" and
    v: "nvalue (node_heap w1 1) = PInt 20" by blast
  from grad_after_capture_is_harmless [OF capture_example_grad(2) g]
  have c: "backward_idx (hook_heap w1 0) = PInt (- 1)" and
    "\<exists>w2. run grad 0 [PInt 30, PInt 40] w1 = Inr (replicate (length [PInt 30, PInt 40]) PNone, w2) \<and>
        node_heap w2 = node_heap w1 \<and> graph_heap w2 = graph_heap w1 \<and>
        backward_idx (hook_heap w2 0) = PInt (- 1 - int (length [PInt 30, PInt 40])) \<and>
        py_int (backward_idx (hook_heap w2 0)) \<noteq> Some 0"
    by blast+
  then obtain w2 where
    "run grad 0 [PInt 30, PInt 40] w1 = Inr ([PNone, PNone], w2)"
    "node_heap w2 = node_heap w1" "backward_idx (hook_heap w2 0) = PInt (- 3)"
    by (auto simp: numeral_2_eq_2)
  then show ?thesis using g c v by auto
qed


section \<open>Bridge\<close>

lemma bridge_add_eq:
  assumes l: "LockProtocol_add from_node w = (l, w1)"
    and b: "BridgeProtocol_add from_node to_node w = (b, w2)"
    and f: "from_node < next_addr w" and t: "to_node < next_addr w"
  shows "l = next_addr w" and "b = Suc (next_addr w)"
    and "target (node_heap w2 l) = ''lock''"
    and "args (node_heap w2 l) = [PNode from_node]"
    and "graph (node_heap w2 l) = graph (node_heap w from_node)"
    and "nodes (graph_heap w2 (graph (node_heap w from_node))) (name (node_heap w2 l)) = Some l"
    and "target (node_heap w2 b) = ''bridge''"
    and "graph (node_heap w2 b) = graph (node_heap w to_node)"
    and "nodes (graph_heap w2 (graph (node_heap w to_node))) (name (node_heap w2 b)) = Some b"
    and "proxy_value (node_heap w2 b) = proxy_value (node_heap w from_node)"
    and "args (node_heap w2 b) =
           [PInt (gid (graph_heap w (graph (node_heap w from_node)))), PStr (name (node_heap w2 l))]"
proof -
  have c1: "graph_create (graph (node_heap w from_node)) ''lock'' PNone [PNode from_node] [] w = (l, w1)"
    using l by (simp add: LockProtocol_add_def node_create_def LockProtocol_name_def)
  note n1 = graph_create_new[OF c1]
  have fl: "from_node \<noteq> next_addr w" and tl: "to_node \<noteq> next_addr w" using f t by auto
  note o1f = graph_create_old[OF c1 fl] and o1t = graph_create_old[OF c1 tl]
  have c2: "graph_create (graph (node_heap w to_node)) ''bridge'' (proxy_value (node_heap w from_node))
              [PInt (gid (graph_heap w (graph (node_heap w from_node)))), PStr (name (node_heap w1 l))]
              [] w1 = (b, w2)"
    using b l o1f o1t graph_create_graphs(2)[OF c1]
    by (simp add: BridgeProtocol_add_def node_create_def BridgeProtocol_name_def)
  note n2 = graph_create_new[OF c2]
  have lb: "l \<noteq> next_addr w1" using n1(1) n1(10) by simp
  note o2 = graph_create_old[OF c2 lb]
  show "l = next_addr w" by (rule n1(1))
  show "b = Suc (next_addr w)" using n2(1) n1(10) n1(1) by simp
  show "target (node_heap w2 l) = ''lock''" using o2(2) n1(3) by simp
  show "args (node_heap w2 l) = [PNode from_node]" using o2(3) n1(4) by simp
  show "graph (node_heap w2 l) = graph (node_heap w from_node)" using o2(7) n1(8) by simp
  show "target (node_heap w2 b) = ''bridge''" by (rule n2(3))
  show "graph (node_heap w2 b) = graph (node_heap w to_node)" by (rule n2(8))
  show "nodes (graph_heap w2 (graph (node_heap w to_node))) (name (node_heap w2 b)) = Some b"
    by (rule n2(9))
  show "proxy_value (node_heap w2 b) = proxy_value (node_heap w from_node)" by (rule n2(6))
  show "args (node_heap w2 b) =
           [PInt (gid (graph_heap w (graph (node_heap w from_node)))), PStr (name (node_heap w2 l))]"
    using n2(4) o2(1) by simp
  have nm: "name (node_heap w2 l) = ''lock'' @ ''_'' @
              show_nat (name_idx (graph_heap w (graph (node_heap w from_node))) ''lock'')"
    using o2(1) n1(2) by simp
  have in1: "nodes (graph_heap w1 (graph (node_heap w from_node))) (name (node_heap w2 l)) = Some l"
    using n1(9) o2(1) by simp
  show "nodes (graph_heap w2 (graph (node_heap w from_node))) (name (node_heap w2 l)) = Some l"
  proof (cases "graph (node_heap w from_node) = graph (node_heap w to_node)")
    case False
    then show ?thesis using graph_create_graphs(4)[OF c2, of "graph (node_heap w from_node)"] in1
      by simp
  next
    case True
    have "nodes (graph_heap w2 (graph (node_heap w to_node))) =
            (nodes (graph_heap w1 (graph (node_heap w to_node))))
              (''bridge'' @ ''_'' @ show_nat (name_idx (graph_heap w1 (graph (node_heap w to_node))) ''bridge'') \<mapsto> b)"
      using c2 by (auto simp: graph_create_def Let_def)
    then show ?thesis using in1 True nm by simp
  qed
qed

lemma bridge_execute_steps_eq:
  assumes "attachments (graph_heap w (graph (node_heap w a))) ''nnsight_bridge'' = Some (PBridge br)"
    and "args (node_heap w a) = [PInt i, PStr nm]"
    and "id_to_graph br i = Some g"
    and "nodes (graph_heap w g) nm = Some l"
    and "args (node_heap w l) = PNode src # rest"
  shows "BridgeProtocol_execute_steps a w =
           Inr (if release br
                then [set_value a (nvalue (node_heap w src)) w,
                      set_value l PNone (set_value a (nvalue (node_heap w src)) w)]
                else [set_value a (nvalue (node_heap w src)) w])"
  using assms
  by (simp add: BridgeProtocol_execute_steps_def get_bridge_def has_bridge_def dict_item_def
      BridgeProtocol_attachment_name_def get_graph_def Let_def)

lemma bridge_example_facts:
  "(0::nat) < next_addr bridge_example \<and> (1::nat) < next_addr bridge_example"
  "graph (node_heap bridge_example 0) = 0"
  "gid (graph_heap bridge_example 0) = 0"
  by (simp_all add: bridge_example_def example_defs init_defs set_bridge_def)

lemma bridged_example_facts:
  "attachments (graph_heap bridged_example (graph (node_heap bridged_example 3))) ''nnsight_bridge''
      = Some (PBridge \<lparr>id_to_graph = [0 \<mapsto> 0, 1 \<mapsto> 1], release = True\<rparr>)"
  "args (node_heap bridged_example 3) = [PInt 0, PStr ''lock_0'']"
  "nodes (graph_heap bridged_example 0) ''lock_0'' = Some 2"
  "args (node_heap bridged_example 2) = PNode 0 # []"
  "nvalue (node_heap bridged_example 0) = PInt 42"
  "nvalue (node_heap bridged_example 2) = Empty"
  "nvalue (node_heap bridged_example 3) = Empty"
  by (simp_all add: bridged_example_def bridge_example_def BridgeProtocol_add_def
      LockProtocol_add_def LockProtocol_name_def BridgeProtocol_name_def
      BridgeProtocol_attachment_name_def example_defs init_defs set_bridge_def show_nat.simps)

text \<open>
  C3. For two existing nodes, \<^verbatim>\<open>BridgeProtocol.add\<close> creates a Lock node on \<open>from_node\<close>
  (target \<^verbatim>\<open>lock\<close>, args the node itself, in the graph of \<open>from_node\<close> and findable there
  by its name) and a node of target \<^verbatim>\<open>bridge\<close> in the graph of \<open>to_node\<close> whose args are
  exactly the identifier of the graph of \<open>from_node\<close> and the name of the lock node.
  \<^verbatim>\<open>BridgeProtocol.execute\<close>, when the directory resolves the identifier to a graph, the
  name to a lock node, and the lock holds a node \<open>src\<close>, writes in this order: first the
  value that \<open>src\<close> has at that moment into the executing node, which gives a store in
  which the destination holds the value and the lock's value is still what it was; then,
  only when the release flag is set, \<^verbatim>\<open>None\<close> into the lock node. Without the flag there
  is no second write and the lock's value is unchanged.
\<close>

theorem bridge_add_then_execute:
  "(from_node < next_addr w \<and> to_node < next_addr w \<longrightarrow>
      (\<exists>l b w1 w2. LockProtocol_add from_node w = (l, w1) \<and>
         BridgeProtocol_add from_node to_node w = (b, w2) \<and>
         target (node_heap w2 l) = ''lock'' \<and>
         args (node_heap w2 l) = [PNode from_node] \<and>
         graph (node_heap w2 l) = graph (node_heap w from_node) \<and>
         nodes (graph_heap w2 (graph (node_heap w from_node))) (name (node_heap w2 l)) = Some l \<and>
         target (node_heap w2 b) = ''bridge'' \<and>
         graph (node_heap w2 b) = graph (node_heap w to_node) \<and>
         nodes (graph_heap w2 (graph (node_heap w to_node))) (name (node_heap w2 b)) = Some b \<and>
         args (node_heap w2 b) =
           [PInt (gid (graph_heap w (graph (node_heap w from_node)))),
            PStr (name (node_heap w2 l))]))
   \<and> (attachments (graph_heap u (graph (node_heap u a))) ''nnsight_bridge'' = Some (PBridge br) \<and>
       args (node_heap u a) = [PInt i, PStr nm] \<and> id_to_graph br i = Some g \<and>
       nodes (graph_heap u g) nm = Some lock_node \<and>
       args (node_heap u lock_node) = PNode src # rest \<longrightarrow>
      (\<exists>u1 u2. BridgeProtocol_execute_steps a u = Inr (if release br then [u1, u2] else [u1]) \<and>
         BridgeProtocol_execute a u = Inr (if release br then u2 else u1) \<and>
         u1 = set_value a (nvalue (node_heap u src)) u \<and>
         u2 = set_value lock_node PNone u1 \<and>
         nvalue (node_heap u1 a) = nvalue (node_heap u src) \<and>
         nvalue (node_heap u1 lock_node) = nvalue (node_heap u lock_node) \<and>
         nvalue (node_heap u2 a) = nvalue (node_heap u src) \<and>
         nvalue (node_heap u2 lock_node) = PNone))"
proof (intro conjI impI)
  assume a: "from_node < next_addr w \<and> to_node < next_addr w"
  obtain l w1 where l: "LockProtocol_add from_node w = (l, w1)"
    by (cases "LockProtocol_add from_node w")
  obtain b w2 where b: "BridgeProtocol_add from_node to_node w = (b, w2)"
    by (cases "BridgeProtocol_add from_node to_node w")
  from a have f: "from_node < next_addr w" and t: "to_node < next_addr w" by simp_all
  show "\<exists>l b w1 w2. LockProtocol_add from_node w = (l, w1) \<and>
         BridgeProtocol_add from_node to_node w = (b, w2) \<and>
         target (node_heap w2 l) = ''lock'' \<and>
         args (node_heap w2 l) = [PNode from_node] \<and>
         graph (node_heap w2 l) = graph (node_heap w from_node) \<and>
         nodes (graph_heap w2 (graph (node_heap w from_node))) (name (node_heap w2 l)) = Some l \<and>
         target (node_heap w2 b) = ''bridge'' \<and>
         graph (node_heap w2 b) = graph (node_heap w to_node) \<and>
         nodes (graph_heap w2 (graph (node_heap w to_node))) (name (node_heap w2 b)) = Some b \<and>
         args (node_heap w2 b) =
           [PInt (gid (graph_heap w (graph (node_heap w from_node)))),
            PStr (name (node_heap w2 l))]"
    using l b bridge_add_eq(3-9)[OF l b f t] bridge_add_eq(11)[OF l b f t] by blast
next
  assume a: "attachments (graph_heap u (graph (node_heap u a))) ''nnsight_bridge'' = Some (PBridge br) \<and>
       args (node_heap u a) = [PInt i, PStr nm] \<and> id_to_graph br i = Some g \<and>
       nodes (graph_heap u g) nm = Some lock_node \<and>
       args (node_heap u lock_node) = PNode src # rest"
  define u1 where "u1 = set_value a (nvalue (node_heap u src)) u"
  define u2 where "u2 = set_value lock_node PNone u1"
  have steps: "BridgeProtocol_execute_steps a u = Inr (if release br then [u1, u2] else [u1])"
    using a bridge_execute_steps_eq[of u a br i nm g lock_node src rest]
    by (simp add: u1_def u2_def)
  have ex: "BridgeProtocol_execute a u = Inr (if release br then u2 else u1)"
    by (simp add: BridgeProtocol_execute_def steps)
  have ne: "lock_node \<noteq> a"
    using a by auto
  have v1: "nvalue (node_heap u1 a) = nvalue (node_heap u src)"
    and l1: "nvalue (node_heap u1 lock_node) = nvalue (node_heap u lock_node)"
    using ne by (simp_all add: u1_def store_simps)
  have v2: "nvalue (node_heap u2 a) = nvalue (node_heap u src)"
    and l2: "nvalue (node_heap u2 lock_node) = PNone"
    using ne v1 by (simp_all add: u2_def store_simps)
  show "\<exists>u1 u2. BridgeProtocol_execute_steps a u = Inr (if release br then [u1, u2] else [u1]) \<and>
         BridgeProtocol_execute a u = Inr (if release br then u2 else u1) \<and>
         u1 = set_value a (nvalue (node_heap u src)) u \<and>
         u2 = set_value lock_node PNone u1 \<and>
         nvalue (node_heap u1 a) = nvalue (node_heap u src) \<and>
         nvalue (node_heap u1 lock_node) = nvalue (node_heap u lock_node) \<and>
         nvalue (node_heap u2 a) = nvalue (node_heap u src) \<and>
         nvalue (node_heap u2 lock_node) = PNone"
    using steps ex u1_def u2_def v1 l1 v2 l2 by blast
qed

theorem bridge_add_then_execute_witness:
  "(\<exists>l b w2. BridgeProtocol_add 0 1 bridge_example = (b, w2) \<and>
      args (node_heap w2 l) = [PNode 0] \<and>
      args (node_heap w2 b) = [PInt 0, PStr (name (node_heap w2 l))]) \<and>
   (\<exists>u1 u2. BridgeProtocol_execute_steps 3 bridged_example = Inr [u1, u2] \<and>
      nvalue (node_heap u1 3) = PInt 42 \<and> nvalue (node_heap u1 2) = Empty \<and>
      BridgeProtocol_execute 3 bridged_example = Inr u2 \<and>
      nvalue (node_heap u2 3) = PInt 42 \<and> nvalue (node_heap u2 2) = PNone)"
proof -
  note inst = bridge_add_then_execute [where from_node = 0 and to_node = 1 and w = bridge_example
      and u = bridged_example and a = 3 and i = 0 and nm = "''lock_0''" and g = 0
      and lock_node = 2 and src = 0 and rest = "[]"
      and br = "\<lparr>id_to_graph = [0 \<mapsto> 0, 1 \<mapsto> 1], release = True\<rparr>"]
  from inst[THEN conjunct1] bridge_example_facts obtain l b w2 where
    "BridgeProtocol_add 0 1 bridge_example = (b, w2)"
    "args (node_heap w2 l) = [PNode 0]"
    "args (node_heap w2 b) = [PInt 0, PStr (name (node_heap w2 l))]"
    by auto
  then have one: "\<exists>l b w2. BridgeProtocol_add 0 1 bridge_example = (b, w2) \<and>
      args (node_heap w2 l) = [PNode 0] \<and>
      args (node_heap w2 b) = [PInt 0, PStr (name (node_heap w2 l))]"
    by blast
  from inst[THEN conjunct2] bridged_example_facts(1-4)
  obtain u1 u2 where
    "BridgeProtocol_execute_steps 3 bridged_example = Inr [u1, u2]"
    "BridgeProtocol_execute 3 bridged_example = Inr u2"
    "nvalue (node_heap u1 3) = nvalue (node_heap bridged_example 0)"
    "nvalue (node_heap u1 2) = nvalue (node_heap bridged_example 2)"
    "nvalue (node_heap u2 3) = nvalue (node_heap bridged_example 0)"
    "nvalue (node_heap u2 2) = PNone"
    by auto
  then have two: "\<exists>u1 u2. BridgeProtocol_execute_steps 3 bridged_example = Inr [u1, u2] \<and>
      nvalue (node_heap u1 3) = PInt 42 \<and> nvalue (node_heap u1 2) = Empty \<and>
      BridgeProtocol_execute 3 bridged_example = Inr u2 \<and>
      nvalue (node_heap u2 3) = PInt 42 \<and> nvalue (node_heap u2 2) = PNone"
    using bridged_example_facts(5,6) by auto
  show ?thesis using one two by blast
qed

section \<open>Apply-Submodule: execute\<close>

lemma apply_module_execute_eq:
  assumes "args (node_heap w a) = PStr module_path # xs"
    and "attachments (graph_heap w (graph (node_heap w a))) ''nnsight_root_module'' = Some root"
    and "util_fetch_attr w root module_path = Inr (PModule m)"
  shows "ApplyModuleProtocol_execute a w =
     (case forward (module_heap w m) (map (\<lambda>x. util_apply x (value_of w) is_Node) xs)
             (snd (prepare_inputs a w)) of
        Inl e \<Rightarrow> Inl e
      | Inr out \<Rightarrow> Inr (set_value a out w))"
  using assms
  by (simp add: ApplyModuleProtocol_execute_def prepare_inputs_def call_module_def get_module_def
      dict_item_def ApplyModuleProtocol_attachment_name_def)

lemma applied_example_facts:
  "args (node_heap applied_example 1) = [PStr ''layer1'', PNode 0] \<and>
   kwargs (node_heap applied_example 1) = [] \<and>
   attachments (graph_heap applied_example (graph (node_heap applied_example 1)))
     ''nnsight_root_module'' = Some (PModule 0) \<and>
   attrs (module_heap applied_example 0) ''layer1'' = Some (PModule 1) \<and>
   forward (module_heap applied_example 1) [nvalue (node_heap applied_example 0)] [] = Inr (PInt 42)"
  by (simp add: applied_example_def module_example_def ApplyModuleProtocol_add_def
      ApplyModuleProtocol_name_def set_module_def
      ApplyModuleProtocol_attachment_name_def double_forward_def example_defs init_defs)

text \<open>
  C4. Let the args of an Apply-Submodule node be a path followed by \<open>xs\<close>, let the graph
  of the node have a root object attached, let the attribute path lead from the root to
  a module \<open>m\<close>, and let the forward of \<open>m\<close> return \<open>out\<close> on the resolved \<open>xs\<close> and
  kwargs. Then the inputs resolve to the path and the real values, and \<^verbatim>\<open>execute\<close> sets
  the value of the node to \<open>out\<close>. The path \<^verbatim>\<open>layer1\<close> leads from a root to its
  attribute of that name; so for a node with args \<^verbatim>\<open>layer1\<close> and a node \<open>x\<close>,
  \<^verbatim>\<open>execute\<close> stores the result of the forward of the root's \<^verbatim>\<open>layer1\<close> on the value
  of \<open>x\<close>.
\<close>

theorem apply_module_execute:
  "(args (node_heap w a) = PStr module_path # xs \<and>
    attachments (graph_heap w (graph (node_heap w a))) ''nnsight_root_module'' = Some root \<and>
    util_fetch_attr w root module_path = Inr (PModule m) \<and>
    forward (module_heap w m) (map (\<lambda>x. util_apply x (value_of w) is_Node) xs)
      (map (\<lambda>(k, x). (k, util_apply x (value_of w) is_Node)) (kwargs (node_heap w a)))
      = Inr out \<longrightarrow>
      prepare_inputs a w
        = (PStr module_path # map (\<lambda>x. util_apply x (value_of w) is_Node) xs,
           map (\<lambda>(k, x). (k, util_apply x (value_of w) is_Node)) (kwargs (node_heap w a))) \<and>
      ApplyModuleProtocol_execute a w = Inr (set_value a out w) \<and>
      nvalue (node_heap (set_value a out w) a) = out)
   \<and> (attrs (module_heap w r) ''layer1'' = Some (PModule m1) \<longrightarrow>
        util_fetch_attr w (PModule r) ''layer1'' = Inr (PModule m1))
   \<and> (args (node_heap w a) = [PStr ''layer1'', PNode x] \<and> kwargs (node_heap w a) = [] \<and>
       attachments (graph_heap w (graph (node_heap w a))) ''nnsight_root_module'' = Some (PModule r) \<and>
       attrs (module_heap w r) ''layer1'' = Some (PModule m1) \<and>
       forward (module_heap w m1) [nvalue (node_heap w x)] [] = Inr out \<longrightarrow>
      ApplyModuleProtocol_execute a w = Inr (set_value a out w))"
proof (intro conjI impI)
  assume a: "args (node_heap w a) = PStr module_path # xs \<and>
    attachments (graph_heap w (graph (node_heap w a))) ''nnsight_root_module'' = Some root \<and>
    util_fetch_attr w root module_path = Inr (PModule m) \<and>
    forward (module_heap w m) (map (\<lambda>x. util_apply x (value_of w) is_Node) xs)
      (map (\<lambda>(k, x). (k, util_apply x (value_of w) is_Node)) (kwargs (node_heap w a)))
      = Inr out"
  then show "prepare_inputs a w
        = (PStr module_path # map (\<lambda>x. util_apply x (value_of w) is_Node) xs,
           map (\<lambda>(k, x). (k, util_apply x (value_of w) is_Node)) (kwargs (node_heap w a)))"
    by (simp add: prepare_inputs_def)
  from a show "ApplyModuleProtocol_execute a w = Inr (set_value a out w)"
    using apply_module_execute_eq[of w a module_path xs root m]
    by (simp add: prepare_inputs_def)
  show "nvalue (node_heap (set_value a out w) a) = out"
    by (simp add: store_simps)
next
  assume "attrs (module_heap w r) ''layer1'' = Some (PModule m1)"
  then show "util_fetch_attr w (PModule r) ''layer1'' = Inr (PModule m1)"
    by (simp add: util_fetch_attr_def)
next
  assume a: "args (node_heap w a) = [PStr ''layer1'', PNode x] \<and> kwargs (node_heap w a) = [] \<and>
       attachments (graph_heap w (graph (node_heap w a))) ''nnsight_root_module'' = Some (PModule r) \<and>
       attrs (module_heap w r) ''layer1'' = Some (PModule m1) \<and>
       forward (module_heap w m1) [nvalue (node_heap w x)] [] = Inr out"
  then have f: "util_fetch_attr w (PModule r) ''layer1'' = Inr (PModule m1)"
    by (simp add: util_fetch_attr_def)
  from a show "ApplyModuleProtocol_execute a w = Inr (set_value a out w)"
    using apply_module_execute_eq[of w a "''layer1''" "[PNode x]" "PModule r" m1, OF _ _ f]
    by (simp add: prepare_inputs_def)
qed

theorem apply_module_execute_witness:
  "ApplyModuleProtocol_execute 1 applied_example = Inr (set_value 1 (PInt 42) applied_example) \<and>
   nvalue (node_heap (set_value 1 (PInt 42) applied_example) 1) = PInt 42"
  using apply_module_execute [where w = applied_example and a = 1 and x = 0 and r = 0
      and ?m1.0 = 1 and out = "PInt 42" and module_path = "''layer1''" and xs = "[PNode 0]"
      and root = "PModule 0" and m = 1] applied_example_facts
  by (simp add: store_simps)


section \<open>Apply-Submodule: add\<close>

lemma resolve_device_None:
  "attachments (graph_heap w g) ''nnsight_root_module'' = None \<Longrightarrow> resolve_device g w = None"
  "attachments (graph_heap w g) ''nnsight_root_module'' = Some (PModule m) \<Longrightarrow>
     parameters (module_heap w m) = [] \<Longrightarrow> resolve_device g w = None"
  "attachments (graph_heap w g) ''nnsight_root_module'' = Some (PModule m) \<Longrightarrow>
     parameters (module_heap w m) = d # ds \<Longrightarrow> resolve_device g w = Some d"
  by (simp_all add: resolve_device_def get_module_def dict_item_def
      ApplyModuleProtocol_attachment_name_def)

lemma validating_facts:
  "validate (graph_heap (validating 0 module_example) 0)"
  "attachments (graph_heap (validating 0 module_example) 0) ''nnsight_root_module''
     = Some (PModule 0)"
  "parameters (module_heap (validating 0 module_example) 0) = []"
  "call_module 0 (PStr ''layer1'')
      (map (prepare_proxy_value (validating 0 module_example) None) [PNode 0]) []
      (validating 0 module_example) = Inr (PInt 8)"
  "\<not> validate (graph_heap module_example 0)"
  by (simp_all add: validating_def module_example_def get_module_def prepare_proxy_value_def
      dict_item_def call_module_def util_fetch_attr_def set_module_def
      ApplyModuleProtocol_attachment_name_def double_forward_def example_defs init_defs)

text \<open>
  C8. Outside validation mode \<^verbatim>\<open>add\<close> creates the node with args the path followed by
  the arguments and with the proxy value left unset. In validation mode the resolution of
  the device does not raise: without a root, or with a root that has no parameter, the
  device is \<^verbatim>\<open>None\<close>, and a placeholder built without a device is the argument with its
  nodes replaced by proxy values, no tensor moved. But \<^verbatim>\<open>add\<close> does not go on to create
  the node: on every validating graph it raises NameError, because the name \<^verbatim>\<open>Node\<close>
  that builds the placeholders is bound only under \<^verbatim>\<open>TYPE_CHECKING\<close>.
\<close>

theorem apply_module_add_validation:
  "(\<not> validate (graph_heap w g) \<longrightarrow>
      (\<exists>b w'. ApplyModuleProtocol_add g module_path as kws w = Inr (b, w') \<and>
         target (node_heap w' b) = ''module'' \<and>
         args (node_heap w' b) = PStr module_path # as \<and>
         kwargs (node_heap w' b) = kws \<and>
         proxy_value (node_heap w' b) = Empty))
   \<and> (attachments (graph_heap w g) ''nnsight_root_module'' = None \<longrightarrow>
        resolve_device g w = None)
   \<and> (attachments (graph_heap w g) ''nnsight_root_module'' = Some (PModule m) \<and>
       parameters (module_heap w m) = [] \<longrightarrow> resolve_device g w = None)
   \<and> prepare_proxy_value w None x = util_apply x (proxy_value_of w) is_Node
   \<and> (validate (graph_heap w g) \<longrightarrow>
        ApplyModuleProtocol_add g module_path as kws w = Inl (NameError ''Node''))"
proof -
  have off: "\<exists>b w'. ApplyModuleProtocol_add g module_path as kws w = Inr (b, w') \<and>
         target (node_heap w' b) = ''module'' \<and>
         args (node_heap w' b) = PStr module_path # as \<and>
         kwargs (node_heap w' b) = kws \<and>
         proxy_value (node_heap w' b) = Empty" if nv: "\<not> validate (graph_heap w g)"
  proof -
    obtain b w' where c: "graph_create g ''module'' Empty (PStr module_path # as) kws w = (b, w')"
      by (cases "graph_create g ''module'' Empty (PStr module_path # as) kws w")
    have "ApplyModuleProtocol_add g module_path as kws w = Inr (b, w')"
      using nv c by (simp add: ApplyModuleProtocol_add_def ApplyModuleProtocol_name_def)
    then show ?thesis using graph_create_new[OF c] by simp
  qed
  have on: "ApplyModuleProtocol_add g module_path as kws w = Inl (NameError ''Node'')"
    if "validate (graph_heap w g)"
    using that by (simp add: ApplyModuleProtocol_add_def Node_global_def TYPE_CHECKING_def)
  have pp: "prepare_proxy_value w None x = util_apply x (proxy_value_of w) is_Node"
    by (simp add: prepare_proxy_value_def)
  show ?thesis
    using off on pp resolve_device_None(1,2)[of w g] by simp
qed

theorem apply_module_add_validation_witness:
  "(\<exists>b w'. ApplyModuleProtocol_add 0 ''layer1'' [PNode 0] [] module_example = Inr (b, w') \<and>
      proxy_value (node_heap w' b) = Empty) \<and>
   validate (graph_heap (validating 0 module_example) 0) \<and>
   resolve_device 0 (validating 0 module_example) = None \<and>
   call_module 0 (PStr ''layer1'')
      (map (prepare_proxy_value (validating 0 module_example) None) [PNode 0]) []
      (validating 0 module_example) = Inr (PInt 8) \<and>
   ApplyModuleProtocol_add 0 ''layer1'' [PNode 0] [] (validating 0 module_example)
     = Inl (NameError ''Node'')"
proof -
  from apply_module_add_validation [where w = module_example and g = 0
      and module_path = "''layer1''" and as = "[PNode 0]" and kws = "[]"] validating_facts(5)
  have one: "\<exists>b w'. ApplyModuleProtocol_add 0 ''layer1'' [PNode 0] [] module_example = Inr (b, w') \<and>
      proxy_value (node_heap w' b) = Empty"
    by blast
  from apply_module_add_validation [where w = "validating 0 module_example" and g = 0
      and module_path = "''layer1''" and as = "[PNode 0]" and kws = "[]" and m = 0]
    validating_facts(1,2,3)
  have two: "resolve_device 0 (validating 0 module_example) = None \<and>
     ApplyModuleProtocol_add 0 ''layer1'' [PNode 0] [] (validating 0 module_example)
       = Inl (NameError ''Node'')"
    by blast
  show ?thesis using one two validating_facts(1,4) by blast
qed

end
